theory Spec2Isabelle
  imports Complex_Main "HOL-Library.AList"
begin

section \<open>Numbers\<close>

text \<open>
  A JavaScript number is an IEEE 754 double. \<open>jsnum\<close> holds the finite numbers by
  their real values, and the three values that are not finite; the sign of a zero is not
  modelled, a zero is \<open>+0\<close>. The sum of two doubles is the double nearest to their
  exact sum (\<open>js_add\<close>), so a total read off a \<open>jsnum\<close> is the total that the code
  computes, rounding and overflow included.

  The aggregations over the device, weekly and regional records only add, from 0. They
  are written over any type of numbers with a \<open>0\<close> and a \<open>+\<close>, and \<open>jsnum\<close> is
  such a type. Where the code compares, subtracts, multiplies or divides (the shares of
  the demographic aggregation, the ratios of the tables, the geometry of the charts),
  the numbers are taken at the type \<open>real\<close>, in exact arithmetic; the result of a
  division is a \<open>jsnum\<close>, since a quotient may be infinite or \<open>NaN\<close>.
\<close>

datatype jsnum = Fin real | PosInf | NegInf | NaN

text \<open>
  Rounding to a double. A double is \<open>m * 2 ^ e\<close> with an integer \<open>m\<close> of at most 53
  bits and \<open>- 1074 \<le> e\<close>. \<open>scale2 e\<close> is \<open>2 ^ e\<close> for an integer \<open>e\<close>;
  \<open>round_half_even\<close> is the nearest integer, the even one of two that are equally near.
  A result of magnitude \<open>2 ^ 1024\<close> or more is infinite.
\<close>

definition scale2 :: "int \<Rightarrow> real" where
  "scale2 e = (if 0 \<le> e then 2 ^ nat e else 1 / 2 ^ nat (- e))"

definition round_half_even :: "real \<Rightarrow> int" where
  "round_half_even q =
     (let f = \<lfloor>q\<rfloor>; d = q - of_int f
      in if d < 1 / 2 then f
         else if 1 / 2 < d then f + 1
         else if even f then f
         else f + 1)"

definition round_double :: "real \<Rightarrow> jsnum" where
  "round_double v =
     (if v = 0 then Fin 0
      else let e = max (\<lfloor>log 2 \<bar>v\<bar>\<rfloor> - 52) (- 1074);
               r = of_int (round_half_even (v / scale2 e)) * scale2 e
           in if 2 ^ 1024 \<le> r then PosInf
              else if r \<le> - (2 ^ 1024) then NegInf
              else Fin r)"

text \<open>\<open>a + b\<close> on numbers.\<close>

fun js_add :: "jsnum \<Rightarrow> jsnum \<Rightarrow> jsnum" where
  "js_add (Fin a) (Fin b) = round_double (a + b)"
| "js_add NaN b = NaN"
| "js_add a NaN = NaN"
| "js_add PosInf NegInf = NaN"
| "js_add NegInf PosInf = NaN"
| "js_add PosInf b = PosInf"
| "js_add NegInf b = NegInf"
| "js_add a PosInf = PosInf"
| "js_add a NegInf = NegInf"

instantiation jsnum :: "{zero, plus}"
begin

definition zero_jsnum :: jsnum where
  "zero_jsnum = Fin 0"

definition plus_jsnum :: "jsnum \<Rightarrow> jsnum \<Rightarrow> jsnum" where
  "plus_jsnum a b = js_add a b"

instance ..

end

text \<open>
  A list of finite values whose running sum, from \<open>a\<close>, stays among the integers of
  magnitude at most \<open>2 ^ 53\<close>: every such sum is a double.
\<close>

fun small_ints :: "real \<Rightarrow> real list \<Rightarrow> bool" where
  "small_ints a [] = True"
| "small_ints a (v # vs) =
     (v = of_int \<lfloor>v\<rfloor> \<and> \<bar>a + v\<bar> \<le> 2 ^ 53 \<and> small_ints (a + v) vs)"

text \<open>\<open>a / b\<close> on finite operands.\<close>

definition js_div :: "real \<Rightarrow> real \<Rightarrow> jsnum" where
  "js_div a b =
     (if b \<noteq> 0 then Fin (a / b)
      else if a = 0 then NaN
      else if 0 < a then PosInf
      else NegInf)"

text \<open>\<open>q * b\<close> with a finite right operand.\<close>

fun js_mul :: "jsnum \<Rightarrow> real \<Rightarrow> jsnum" where
  "js_mul (Fin a) b = Fin (a * b)"
| "js_mul NaN b = NaN"
| "js_mul PosInf b = (if b = 0 then NaN else if 0 < b then PosInf else NegInf)"
| "js_mul NegInf b = (if b = 0 then NaN else if 0 < b then NegInf else PosInf)"

text \<open>Truthiness of a number: \<open>0\<close> and \<open>NaN\<close> are falsy, everything else is truthy.\<close>

fun truthy :: "jsnum \<Rightarrow> bool" where
  "truthy (Fin a) = (a \<noteq> 0)"
| "truthy NaN = False"
| "truthy PosInf = True"
| "truthy NegInf = True"

text \<open>\<open>q || d\<close> on numbers.\<close>

definition js_or :: "jsnum \<Rightarrow> jsnum \<Rightarrow> jsnum" where
  "js_or q d = (if truthy q then q else d)"

text \<open>
  The text of a number inside a template string: the three non-finite values have fixed
  names, the digits of a finite number are the engine's and are taken as the parameter
  \<open>digits\<close>.
\<close>

fun js_toString :: "(real \<Rightarrow> string) \<Rightarrow> jsnum \<Rightarrow> string" where
  "js_toString digits (Fin a) = digits a"
| "js_toString digits NaN = ''NaN''"
| "js_toString digits PosInf = ''Infinity''"
| "js_toString digits NegInf = ''-Infinity''"

section \<open>The insertion-ordered Map\<close>

text \<open>
  A JavaScript \<open>Map\<close> keeps its entries in the order in which their keys were first
  set; \<open>set\<close> on a key that is present replaces the value in place. That is an
  association list with \<open>AList.update\<close>.
\<close>

type_synonym ('k, 'v) js_map = "('k \<times> 'v) list"

definition Map_has :: "('k, 'v) js_map \<Rightarrow> 'k \<Rightarrow> bool" where
  "Map_has m k = (case map_of m k of None \<Rightarrow> False | Some v \<Rightarrow> True)"

definition Map_get :: "('k, 'v) js_map \<Rightarrow> 'k \<Rightarrow> 'v option" where
  "Map_get m k = map_of m k"

definition Map_set :: "('k, 'v) js_map \<Rightarrow> 'k \<Rightarrow> 'v \<Rightarrow> ('k, 'v) js_map" where
  "Map_set m k v = AList.update k v m"

definition Map_entries :: "('k, 'v) js_map \<Rightarrow> ('k \<times> 'v) list" where
  "Map_entries m = m"

definition Map_values :: "('k, 'v) js_map \<Rightarrow> 'v list" where
  "Map_values m = map snd m"

section \<open>The data model\<close>

text \<open>
  Each view declares its own \<open>Campaign\<close> interface; all of them read the fetched
  document \<open>{ campaigns: Campaign[] }\<close>. The document is not validated, and the code
  guards against what may be missing: a \<open>data\<close> that is still \<open>null\<close>, a missing
  \<open>campaigns\<close> list and a missing breakdown list are \<open>None\<close>. Of each interface
  the fields that the modelled code reads are kept. Where two interfaces use the same
  field name, the name is qualified by its record.
\<close>

record 'c MarketingData =
  campaigns :: "'c list option"

datatype js_error = TypeError

subsection \<open>Demographic view\<close>

text \<open>\<open>demo.performance\<close>\<close>

record Performance =
  clicks :: real

record DemographicData =
  age_group :: string
  gender :: string
  percentage_of_audience :: real
  performance :: Performance

record DemographicCampaign =
  demographic_breakdown :: "DemographicData list option"
  spend :: real
  revenue :: real

text \<open>\<open>maleData\<close> and \<open>femaleData\<close>\<close>

record GenderStats =
  clicks :: real
  spend :: real
  revenue :: real

text \<open>A value of \<open>ageGroupData\<close>\<close>

record AgeStats =
  spend :: real
  revenue :: real

text \<open>
  What \<open>calculateMetrics\<close> returns. \<open>ageGroupData\<close> is a plain object \<open>{}\<close> used
  as a dictionary: the list holds its own properties in the order of their creation
  (integer-like names, which an object lists first, are not modelled). A plain object
  inherits the properties of \<open>Object.prototype\<close>, and \<open>ageGroupData[k]\<close> reads an
  inherited property when the object has no own property \<open>k\<close>.
\<close>

definition Object_prototype_names :: "string list" where
  "Object_prototype_names =
     [''constructor'', ''__defineGetter__'', ''__defineSetter__'', ''hasOwnProperty'',
      ''__lookupGetter__'', ''__lookupSetter__'', ''isPrototypeOf'',
      ''propertyIsEnumerable'', ''toString'', ''valueOf'', ''__proto__'',
      ''toLocaleString'']"

record Metrics =
  maleData :: GenderStats
  femaleData :: GenderStats
  ageGroupData :: "(string \<times> AgeStats) list"

text \<open>
  The body of the inner \<open>forEach\<close> of \<open>calculateMetrics\<close>, for one record. For a
  name that the object inherits and does not own, \<open>ageGroupData[k]\<close> is the inherited
  function or object, which is truthy: no bucket is created, and the two \<open>+=\<close> write to
  that inherited object, not to \<open>ageGroupData\<close>.
\<close>

definition demo_forEach :: "DemographicCampaign \<Rightarrow> DemographicData \<Rightarrow> Metrics \<Rightarrow> Metrics" where
  "demo_forEach campaign demo m =
     (let ratio = percentage_of_audience demo / 100;
          clicks = Performance.clicks (performance demo);
          spend = DemographicCampaign.spend campaign * ratio;
          revenue = DemographicCampaign.revenue campaign * ratio;
          m1 = (if gender demo = ''Male''
                then m\<lparr>maleData :=
                        \<lparr>GenderStats.clicks = GenderStats.clicks (maleData m) + clicks,
                         GenderStats.spend = GenderStats.spend (maleData m) + spend,
                         GenderStats.revenue = GenderStats.revenue (maleData m) + revenue\<rparr>\<rparr>
                else if gender demo = ''Female''
                then m\<lparr>femaleData :=
                        \<lparr>GenderStats.clicks = GenderStats.clicks (femaleData m) + clicks,
                         GenderStats.spend = GenderStats.spend (femaleData m) + spend,
                         GenderStats.revenue = GenderStats.revenue (femaleData m) + revenue\<rparr>\<rparr>
                else m);
          m2 = (case map_of (ageGroupData m1) (age_group demo) of
                  None \<Rightarrow>
                    if age_group demo \<in> set Object_prototype_names then m1
                    else m1\<lparr>ageGroupData :=
                              AList.update (age_group demo)
                                \<lparr>AgeStats.spend = 0, AgeStats.revenue = 0\<rparr>
                                (ageGroupData m1)\<rparr>
                | Some b \<Rightarrow> m1)
      in case map_of (ageGroupData m2) (age_group demo) of
           None \<Rightarrow> m2
         | Some b \<Rightarrow>
             m2\<lparr>ageGroupData :=
                  AList.update (age_group demo)
                    \<lparr>AgeStats.spend = AgeStats.spend b + spend,
                     AgeStats.revenue = AgeStats.revenue b + revenue\<rparr> (ageGroupData m2)\<rparr>)"

text \<open>
  The outer \<open>forEach\<close>. \<open>campaign.demographic_breakdown.forEach\<close> is called with no
  check of the list: on a campaign without one it throws a \<open>TypeError\<close>, which nothing
  catches.
\<close>

fun demo_campaigns_forEach :: "DemographicCampaign list \<Rightarrow> Metrics \<Rightarrow> js_error + Metrics" where
  "demo_campaigns_forEach [] m = Inr m"
| "demo_campaigns_forEach (campaign # cs) m =
     (case demographic_breakdown campaign of
        None \<Rightarrow> Inl TypeError
      | Some ds \<Rightarrow> demo_campaigns_forEach cs (fold (demo_forEach campaign) ds m))"

definition calculateMetrics :: "DemographicCampaign MarketingData option \<Rightarrow> js_error + Metrics option" where
  "calculateMetrics data =
     (case data of
        None \<Rightarrow> Inr None
      | Some d \<Rightarrow>
          (case campaigns d of
             None \<Rightarrow> Inr None
           | Some cs \<Rightarrow>
               (case demo_campaigns_forEach cs
                       \<lparr>maleData = \<lparr>GenderStats.clicks = 0, GenderStats.spend = 0,
                                     GenderStats.revenue = 0\<rparr>,
                        femaleData = \<lparr>GenderStats.clicks = 0, GenderStats.spend = 0,
                                       GenderStats.revenue = 0\<rparr>,
                        ageGroupData = []\<rparr> of
                  Inl e \<Rightarrow> Inl e
                | Inr m \<Rightarrow> Inr (Some m))))"

text \<open>
  Every demographic record of the document, each with its campaign, in reading order.
\<close>

definition demographic_records ::
  "DemographicCampaign MarketingData option \<Rightarrow> (DemographicCampaign \<times> DemographicData) list" where
  "demographic_records data =
     (case data of
        None \<Rightarrow> []
      | Some d \<Rightarrow>
          (case campaigns d of
             None \<Rightarrow> []
           | Some cs \<Rightarrow>
               concat (map (\<lambda>c. case demographic_breakdown c of
                                   None \<Rightarrow> []
                                 | Some ds \<Rightarrow> map (Pair c) ds) cs)))"

text \<open>
  The share of its campaign's spend and revenue that a record stands for:
  \<open>campaign.spend * (percentage_of_audience / 100)\<close>, and the same for revenue.
\<close>

definition spend_share :: "DemographicCampaign \<times> DemographicData \<Rightarrow> real" where
  "spend_share cd =
     DemographicCampaign.spend (fst cd) * (percentage_of_audience (snd cd) / 100)"

definition revenue_share :: "DemographicCampaign \<times> DemographicData \<Rightarrow> real" where
  "revenue_share cd =
     DemographicCampaign.revenue (fst cd) * (percentage_of_audience (snd cd) / 100)"

text \<open>What one record adds to a gender bucket and to an age-group bucket.\<close>

definition gender_add :: "DemographicCampaign \<times> DemographicData \<Rightarrow> GenderStats \<Rightarrow> GenderStats" where
  "gender_add cd g =
     \<lparr>GenderStats.clicks = GenderStats.clicks g + Performance.clicks (performance (snd cd)),
      GenderStats.spend = GenderStats.spend g + spend_share cd,
      GenderStats.revenue = GenderStats.revenue g + revenue_share cd\<rparr>"

definition age_init :: "DemographicCampaign \<times> DemographicData \<Rightarrow> AgeStats" where
  "age_init cd = \<lparr>AgeStats.spend = 0, AgeStats.revenue = 0\<rparr>"

definition age_add :: "DemographicCampaign \<times> DemographicData \<Rightarrow> AgeStats \<Rightarrow> AgeStats" where
  "age_add cd b =
     \<lparr>AgeStats.spend = AgeStats.spend b + spend_share cd,
      AgeStats.revenue = AgeStats.revenue b + revenue_share cd\<rparr>"

definition empty_metrics :: Metrics where
  "empty_metrics =
     \<lparr>maleData = \<lparr>GenderStats.clicks = 0, GenderStats.spend = 0, GenderStats.revenue = 0\<rparr>,
      femaleData = \<lparr>GenderStats.clicks = 0, GenderStats.spend = 0, GenderStats.revenue = 0\<rparr>,
      ageGroupData = []\<rparr>"


text \<open>Two records of one age group and two genders.\<close>

definition example_two_genders :: "DemographicCampaign MarketingData option" where
  "example_two_genders =
     Some \<lparr>campaigns = Some
       [\<lparr>demographic_breakdown = Some
           [\<lparr>age_group = ''18-24'', gender = ''Male'', percentage_of_audience = 25,
             performance = \<lparr>Performance.clicks = 7\<rparr>\<rparr>,
            \<lparr>age_group = ''18-24'', gender = ''Other'', percentage_of_audience = 75,
             performance = \<lparr>Performance.clicks = 9\<rparr>\<rparr>],
         DemographicCampaign.spend = 1000, DemographicCampaign.revenue = 2000\<rparr>]\<rparr>"



text \<open>A record whose age group is a name that an empty object inherits.\<close>

definition example_inherited_name :: "DemographicCampaign MarketingData option" where
  "example_inherited_name =
     Some \<lparr>campaigns = Some
       [\<lparr>demographic_breakdown = Some
           [\<lparr>age_group = ''18-24'', gender = ''Male'', percentage_of_audience = 25,
             performance = \<lparr>Performance.clicks = 7\<rparr>\<rparr>,
            \<lparr>age_group = ''constructor'', gender = ''Female'', percentage_of_audience = 75,
             performance = \<lparr>Performance.clicks = 9\<rparr>\<rparr>],
         DemographicCampaign.spend = 1000, DemographicCampaign.revenue = 2000\<rparr>]\<rparr>"

subsection \<open>The summed fields\<close>

text \<open>
  The five summed fields are common to the device, weekly and regional breakdown
  records, to their buckets and to their output rows. \<open>'n\<close> is the type of the
  numbers.
\<close>

record 'n PerformanceRecord =
  impressions :: 'n
  clicks :: 'n
  conversions :: 'n
  spend :: 'n
  revenue :: 'n

subsection \<open>Region view\<close>

record 'n RegionalData = "'n PerformanceRecord" +
  region :: string
  country :: string

record 'n RegionalCampaign =
  regional_performance :: "'n RegionalData list option"

text \<open>The value type of \<open>regionalMap\<close>.\<close>

record 'n RegionalStats = "'n PerformanceRecord" +
  country :: string

text \<open>An element of the array that \<open>aggregatedRegionalData\<close> returns.\<close>

record 'n RegionalRow = "'n RegionalStats" +
  region :: string

text \<open>The body of the inner \<open>forEach\<close> of \<open>aggregatedRegionalData\<close>, for one record.\<close>

definition regional_forEach ::
  "'n::{zero, plus} RegionalData \<Rightarrow> (string, 'n RegionalStats) js_map
     \<Rightarrow> (string, 'n RegionalStats) js_map" where
  "regional_forEach r regionalMap =
     (let key = RegionalData.region r;
          m1 = (if \<not> Map_has regionalMap key
                then Map_set regionalMap key
                       \<lparr>impressions = 0, clicks = 0, conversions = 0, spend = 0, revenue = 0,
                        RegionalStats.country = RegionalData.country r\<rparr>
                else regionalMap)
      in case Map_get m1 key of
           None \<Rightarrow> m1
         | Some existing \<Rightarrow>
             Map_set m1 key
               (existing\<lparr>spend := spend existing + spend r,
                         revenue := revenue existing + revenue r,
                         impressions := impressions existing + impressions r,
                         clicks := clicks existing + clicks r,
                         conversions := conversions existing + conversions r\<rparr>))"

definition regional_campaign_forEach ::
  "'n::{zero, plus} RegionalCampaign \<Rightarrow> (string, 'n RegionalStats) js_map
     \<Rightarrow> (string, 'n RegionalStats) js_map" where
  "regional_campaign_forEach campaign regionalMap =
     (case regional_performance campaign of
        None \<Rightarrow> regionalMap
      | Some rs \<Rightarrow> fold regional_forEach rs regionalMap)"

definition regional_row :: "string \<times> 'n RegionalStats \<Rightarrow> 'n RegionalRow" where
  "regional_row e =
     (case e of (k, d) \<Rightarrow>
        \<lparr>impressions = impressions d, clicks = clicks d, conversions = conversions d,
         spend = spend d, revenue = revenue d, RegionalStats.country = RegionalStats.country d,
         RegionalRow.region = k\<rparr>)"

definition aggregatedRegionalData ::
  "'n::{zero, plus} RegionalCampaign MarketingData option \<Rightarrow> 'n RegionalRow list" where
  "aggregatedRegionalData data =
     (case data of
        None \<Rightarrow> []
      | Some d \<Rightarrow>
          (case campaigns d of
             None \<Rightarrow> []
           | Some cs \<Rightarrow>
               if length cs = 0 then []
               else map regional_row (Map_entries (fold regional_campaign_forEach cs []))))"

text \<open>\<open>regionalData = data?.campaigns?.length ? aggregatedRegionalData() : []\<close>\<close>

definition regionalData ::
  "'n::{zero, plus} RegionalCampaign MarketingData option \<Rightarrow> 'n RegionalRow list" where
  "regionalData data =
     (case data of
        None \<Rightarrow> []
      | Some d \<Rightarrow>
          (case campaigns d of
             None \<Rightarrow> []
           | Some cs \<Rightarrow> if length cs \<noteq> 0 then aggregatedRegionalData data else []))"

text \<open>Every regional record of the document, campaign by campaign, in reading order.\<close>

definition regional_records ::
  "'n RegionalCampaign MarketingData option \<Rightarrow> 'n RegionalData list" where
  "regional_records data =
     (case data of
        None \<Rightarrow> []
      | Some d \<Rightarrow>
          (case campaigns d of
             None \<Rightarrow> []
           | Some cs \<Rightarrow>
               concat (map (\<lambda>c. case regional_performance c of None \<Rightarrow> [] | Some rs \<Rightarrow> rs) cs)))"

subsection \<open>Device view\<close>

record 'n DeviceData = "'n PerformanceRecord" +
  device :: string
  ctr :: 'n
  percentage_of_traffic :: 'n

record 'n DeviceCampaign =
  campaign_name :: string
  device_performance :: "'n DeviceData list option"

text \<open>The value type of \<open>deviceMap\<close>.\<close>

record 'n DeviceStats = "'n PerformanceRecord" +
  traffic :: 'n

text \<open>An element of the array that \<open>aggregatedDeviceData\<close> returns.\<close>

record 'n DeviceRow = "'n DeviceStats" +
  device :: string

text \<open>The body of the inner \<open>forEach\<close> of \<open>aggregatedDeviceData\<close>, for one record.\<close>

definition device_forEach ::
  "'n::{zero, plus} DeviceData \<Rightarrow> (string, 'n DeviceStats) js_map
     \<Rightarrow> (string, 'n DeviceStats) js_map" where
  "device_forEach r deviceMap =
     (let key = DeviceData.device r;
          m1 = (if \<not> Map_has deviceMap key
                then Map_set deviceMap key
                       \<lparr>impressions = 0, clicks = 0, conversions = 0, spend = 0, revenue = 0,
                        traffic = 0\<rparr>
                else deviceMap)
      in case Map_get m1 key of
           None \<Rightarrow> m1
         | Some existing \<Rightarrow>
             Map_set m1 key
               (existing\<lparr>impressions := impressions existing + impressions r,
                         clicks := clicks existing + clicks r,
                         conversions := conversions existing + conversions r,
                         spend := spend existing + spend r,
                         revenue := revenue existing + revenue r,
                         traffic := traffic existing + percentage_of_traffic r\<rparr>))"

definition device_campaign_forEach ::
  "'n::{zero, plus} DeviceCampaign \<Rightarrow> (string, 'n DeviceStats) js_map
     \<Rightarrow> (string, 'n DeviceStats) js_map" where
  "device_campaign_forEach campaign deviceMap =
     (case device_performance campaign of
        None \<Rightarrow> deviceMap
      | Some rs \<Rightarrow> fold device_forEach rs deviceMap)"

definition device_row :: "string \<times> 'n DeviceStats \<Rightarrow> 'n DeviceRow" where
  "device_row e =
     (case e of (k, stats) \<Rightarrow>
        \<lparr>impressions = impressions stats, clicks = clicks stats,
         conversions = conversions stats, spend = spend stats, revenue = revenue stats,
         traffic = traffic stats, DeviceRow.device = k\<rparr>)"

definition aggregatedDeviceData ::
  "'n::{zero, plus} DeviceCampaign MarketingData option \<Rightarrow> 'n DeviceRow list" where
  "aggregatedDeviceData data =
     (case data of
        None \<Rightarrow> []
      | Some d \<Rightarrow>
          (case campaigns d of
             None \<Rightarrow> []
           | Some cs \<Rightarrow>
               if length cs = 0 then []
               else map device_row (Map_entries (fold device_campaign_forEach cs []))))"

text \<open>Every device record of the document, campaign by campaign, in reading order.\<close>

definition device_records ::
  "'n DeviceCampaign MarketingData option \<Rightarrow> 'n DeviceData list" where
  "device_records data =
     (case data of
        None \<Rightarrow> []
      | Some d \<Rightarrow>
          (case campaigns d of
             None \<Rightarrow> []
           | Some cs \<Rightarrow>
               concat (map (\<lambda>c. case device_performance c of None \<Rightarrow> [] | Some rs \<Rightarrow> rs) cs)))"

subsection \<open>Weekly view\<close>

record 'n WeeklyData = "'n PerformanceRecord" +
  week_start :: string
  week_end :: string

record 'n WeeklyCampaign =
  weekly_performance :: "'n WeeklyData list option"

text \<open>
  The value type of \<open>weeklyMap\<close>; the rows that \<open>aggregatedWeeklyData\<close> returns are
  these values themselves.
\<close>

record 'n WeeklyStats = "'n PerformanceRecord" +
  weekStart :: string
  weekEnd :: string

text \<open>The body of the inner \<open>forEach\<close> of \<open>aggregatedWeeklyData\<close>, for one record.\<close>

definition weekly_forEach ::
  "'n::{zero, plus} WeeklyData \<Rightarrow> (string, 'n WeeklyStats) js_map
     \<Rightarrow> (string, 'n WeeklyStats) js_map" where
  "weekly_forEach r weeklyMap =
     (let key = week_start r;
          m1 = (if \<not> Map_has weeklyMap key
                then Map_set weeklyMap key
                       \<lparr>impressions = 0, clicks = 0, conversions = 0, spend = 0, revenue = 0,
                        weekStart = week_start r, weekEnd = week_end r\<rparr>
                else weeklyMap)
      in case Map_get m1 key of
           None \<Rightarrow> m1
         | Some existing \<Rightarrow>
             Map_set m1 key
               (existing\<lparr>spend := spend existing + spend r,
                         revenue := revenue existing + revenue r,
                         impressions := impressions existing + impressions r,
                         clicks := clicks existing + clicks r,
                         conversions := conversions existing + conversions r\<rparr>))"

definition weekly_campaign_forEach ::
  "'n::{zero, plus} WeeklyCampaign \<Rightarrow> (string, 'n WeeklyStats) js_map
     \<Rightarrow> (string, 'n WeeklyStats) js_map" where
  "weekly_campaign_forEach campaign weeklyMap =
     (case weekly_performance campaign of
        None \<Rightarrow> weeklyMap
      | Some rs \<Rightarrow> fold weekly_forEach rs weeklyMap)"

text \<open>
  The rows are sorted by \<open>new Date(a.weekStart).getTime() - new Date(b.weekStart).getTime()\<close>.
  Parsing a date is the engine's: \<open>getTime\<close>, the milliseconds of a date string, is a
  parameter, and the date strings are taken to parse. \<open>Array.prototype.sort\<close> is stable,
  and so is \<open>sort_key\<close>.
\<close>

definition aggregatedWeeklyData ::
  "(string \<Rightarrow> int) \<Rightarrow> 'n::{zero, plus} WeeklyCampaign MarketingData option
     \<Rightarrow> 'n WeeklyStats list" where
  "aggregatedWeeklyData getTime data =
     (case data of
        None \<Rightarrow> []
      | Some d \<Rightarrow>
          (case campaigns d of
             None \<Rightarrow> []
           | Some cs \<Rightarrow>
               if length cs = 0 then []
               else sort_key (\<lambda>a. getTime (weekStart a))
                      (Map_values (fold weekly_campaign_forEach cs []))))"

text \<open>Every weekly record of the document, campaign by campaign, in reading order.\<close>

definition weekly_records ::
  "'n WeeklyCampaign MarketingData option \<Rightarrow> 'n WeeklyData list" where
  "weekly_records data =
     (case data of
        None \<Rightarrow> []
      | Some d \<Rightarrow>
          (case campaigns d of
             None \<Rightarrow> []
           | Some cs \<Rightarrow>
               concat (map (\<lambda>c. case weekly_performance c of None \<Rightarrow> [] | Some rs \<Rightarrow> rs) cs)))"

subsection \<open>Device view: the per-campaign table\<close>

text \<open>
  The per-campaign table of the device view. \<open>mobile_campaign_row\<close> is the callback of
  the \<open>map\<close>; \<open>null\<close> is \<open>None\<close>. A row holds the numbers that the code hands
  to \<open>toLocaleString\<close> and \<open>toFixed\<close>; \<open>roas\<close> is the quotient on which
  \<open>toFixed(2)\<close> is called.
\<close>

record CampaignTableRow = "real PerformanceRecord" +
  campaign :: string
  ctr :: real
  roas :: jsnum

definition mobile_campaign_row :: "real DeviceCampaign \<Rightarrow> CampaignTableRow option" where
  "mobile_campaign_row c =
     (case device_performance c of
        None \<Rightarrow> None
      | Some ds \<Rightarrow>
          (case find (\<lambda>d. DeviceData.device d = ''Mobile'') ds of
             None \<Rightarrow> None
           | Some mobilePerf \<Rightarrow>
               Some \<lparr>impressions = impressions mobilePerf, clicks = clicks mobilePerf,
                     conversions = conversions mobilePerf, spend = spend mobilePerf,
                     revenue = revenue mobilePerf, campaign = campaign_name c,
                     CampaignTableRow.ctr = DeviceData.ctr mobilePerf,
                     roas = js_div (revenue mobilePerf) (spend mobilePerf)\<rparr>))"

text \<open>
  The rows are sorted by descending \<open>parseFloat\<close> of the formatted revenue;
  \<open>parsed\<close> is the number that \<open>parseFloat\<close> reads back from the text of a revenue.
\<close>

definition mobileCampaigns ::
  "(real \<Rightarrow> real) \<Rightarrow> real DeviceCampaign MarketingData option \<Rightarrow> CampaignTableRow list" where
  "mobileCampaigns parsed data =
     (case data of
        None \<Rightarrow> []
      | Some d \<Rightarrow>
          (case campaigns d of
             None \<Rightarrow> []
           | Some cs \<Rightarrow>
               sort_key (\<lambda>a. - parsed (revenue a)) (List.map_filter mobile_campaign_row cs)))"

text \<open>
  \<open>mobileROAS = mobileData.spend > 0 ? mobileData.revenue / mobileData.spend : 0\<close>,
  the summary card of the same view.
\<close>

definition mobileROAS :: "(real, 'a) PerformanceRecord_scheme \<Rightarrow> jsnum" where
  "mobileROAS mobileData =
     (if spend mobileData > 0 then js_div (revenue mobileData) (spend mobileData) else Fin 0)"

subsection \<open>Region view: the table and the bubble maps\<close>

text \<open>
  A row of \<open>tableData\<close>, with the numbers that the code hands to \<open>toLocaleString\<close>
  and \<open>toFixed\<close>: \<open>roas\<close> is \<open>(region.revenue / region.spend) || 0\<close>.
  The row is written as the aggregated row with \<open>roas\<close> added; the table itself shows
  no impressions.
\<close>

record RegionalTableRow = "real RegionalRow" +
  roas :: jsnum

definition tableData ::
  "real RegionalCampaign MarketingData option \<Rightarrow> RegionalTableRow list" where
  "tableData data =
     map (\<lambda>r. \<lparr>impressions = impressions r, clicks = clicks r, conversions = conversions r,
                spend = spend r, revenue = revenue r,
                RegionalStats.country = RegionalStats.country r,
                RegionalRow.region = RegionalRow.region r,
                RegionalTableRow.roas = js_or (js_div (revenue r) (spend r)) (Fin 0)\<rparr>)
       (sort_key (\<lambda>a. - revenue a) (regionalData data))"

text \<open>The fixed table of cities: name, then longitude \<open>x\<close>, latitude \<open>y\<close> and country.\<close>

definition cityCoordinates :: "(string \<times> real \<times> real \<times> string) list" where
  "cityCoordinates =
     [(''Dubai'', 55.2708, 25.2048, ''UAE''),
      (''Abu Dhabi'', 54.3773, 24.4539, ''UAE''),
      (''Riyadh'', 46.6753, 24.7136, ''Saudi Arabia''),
      (''Jeddah'', 39.1925, 21.5433, ''Saudi Arabia''),
      (''Cairo'', 31.2357, 30.0444, ''Egypt''),
      (''Doha'', 51.5310, 25.2854, ''Qatar''),
      (''Kuwait'', 47.9774, 29.3759, ''Kuwait''),
      (''Manama'', 50.5577, 26.0667, ''Bahrain''),
      (''Muscat'', 58.4059, 23.5880, ''Oman''),
      (''Amman'', 35.9450, 31.9539, ''Jordan''),
      (''Beirut'', 35.5018, 33.8886, ''Lebanon''),
      (''Casablanca'', - 7.5898, 33.5731, ''Morocco''),
      (''Tunis'', 10.1815, 36.8065, ''Tunisia''),
      (''Algiers'', 3.0588, 36.7538, ''Algeria''),
      (''Paris'', 2.3522, 48.8566, ''France''),
      (''London'', - 0.1276, 51.5074, ''United Kingdom''),
      (''Madrid'', - 3.7038, 40.4168, ''Spain''),
      (''Rome'', 12.4964, 41.9028, ''Italy''),
      (''Berlin'', 13.4050, 52.5200, ''Germany''),
      (''Istanbul'', 28.9784, 41.0082, ''Turkey'')]"

record BubbleDataPoint =
  city :: string
  country :: string
  "value" :: real
  secondaryValue :: "real option"
  x :: real
  y :: real

text \<open>\<open>new Map(regionalData.map(r => [r.region, r]))\<close>\<close>

definition regionalDataMap ::
  "real RegionalCampaign MarketingData option \<Rightarrow> (string, real RegionalRow) js_map" where
  "regionalDataMap data =
     fold (\<lambda>r m. Map_set m (RegionalRow.region r) r) (regionalData data) []"

text \<open>\<open>n || d\<close> where \<open>n\<close> is the field of a row that may be \<open>undefined\<close>.\<close>

definition field_or :: "real option \<Rightarrow> real \<Rightarrow> real" where
  "field_or n d = (case n of None \<Rightarrow> d | Some a \<Rightarrow> if a \<noteq> 0 then a else d)"

definition bubbleMapDataRevenue ::
  "real RegionalCampaign MarketingData option \<Rightarrow> BubbleDataPoint list" where
  "bubbleMapDataRevenue data =
     map (\<lambda>(c, cx, cy, ccountry).
            let regionData = Map_get (regionalDataMap data) c
            in \<lparr>city = c, BubbleDataPoint.country = ccountry,
                BubbleDataPoint.value = field_or (map_option revenue regionData) 1000,
                secondaryValue = Some (field_or (map_option spend regionData) 0),
                BubbleDataPoint.x = cx, BubbleDataPoint.y = cy\<rparr>)
       cityCoordinates"

definition bubbleMapDataSpend ::
  "real RegionalCampaign MarketingData option \<Rightarrow> BubbleDataPoint list" where
  "bubbleMapDataSpend data =
     map (\<lambda>(c, cx, cy, ccountry).
            let regionData = Map_get (regionalDataMap data) c
            in \<lparr>city = c, BubbleDataPoint.country = ccountry,
                BubbleDataPoint.value = field_or (map_option spend regionData) 1000,
                secondaryValue = Some (field_or (map_option revenue regionData) 0),
                BubbleDataPoint.x = cx, BubbleDataPoint.y = cy\<rparr>)
       cityCoordinates"

section \<open>The bubble map\<close>

text \<open>\<open>Math.max(v, ...vs)\<close> and \<open>Math.min(v, ...vs)\<close> of at least one number.\<close>

definition Math_max :: "real \<Rightarrow> real list \<Rightarrow> real" where
  "Math_max v vs = fold max vs v"

definition Math_min :: "real \<Rightarrow> real list \<Rightarrow> real" where
  "Math_min v vs = fold min vs v"

definition getBubbleSize :: "real \<Rightarrow> real \<Rightarrow> real \<Rightarrow> real" where
  "getBubbleSize maxValue minValue v =
     (if maxValue = minValue then 35
      else let normalized = (v - minValue) / (maxValue - minValue)
           in 10 + normalized * 50)"

definition convertCoordinates :: "real \<Rightarrow> real \<Rightarrow> real \<Rightarrow> real \<times> real" where
  "convertCoordinates height lon lat =
     (let viewBoxWidth = 1000; viewBoxHeight = height
      in (((lon + 180) / 360) * viewBoxWidth, ((90 - lat) / 180) * viewBoxHeight))"

text \<open>One drawn bubble: the centre and the radius of its outer circle.\<close>

record Bubble =
  svgX :: real
  svgY :: real
  radius :: real

text \<open>
  What the component draws: the bubbles in the order of \<open>data\<close>, the two numbers of
  the legend, and the city list, which is \<open>data.sort((a, b) => b.value - a.value)\<close>.
\<close>

record BubbleView =
  bubbles :: "Bubble list"
  legendMin :: real
  legendMax :: real
  cityList :: "BubbleDataPoint list"

text \<open>
  \<open>BubbleMap\<close> returns the view, \<open>None\<close> for the "No data available" box, together
  with the content of the caller's \<open>data\<close> array after the call:
  \<open>Array.prototype.sort\<close> sorts the array it is called on, in place, and \<open>data\<close> is
  the array of the caller, not a copy.
\<close>

definition BubbleMap ::
  "real \<Rightarrow> BubbleDataPoint list \<Rightarrow> BubbleView option \<times> BubbleDataPoint list" where
  "BubbleMap height data =
     (case data of
        [] \<Rightarrow> (None, data)
      | item # items \<Rightarrow>
          let maxValue = Math_max (BubbleDataPoint.value item) (map BubbleDataPoint.value items);
              minValue = Math_min (BubbleDataPoint.value item) (map BubbleDataPoint.value items);
              drawn = map (\<lambda>point.
                             case convertCoordinates height (BubbleDataPoint.x point)
                                    (BubbleDataPoint.y point) of
                               (sx, sy) \<Rightarrow>
                                 \<lparr>svgX = sx, svgY = sy,
                                  radius = getBubbleSize maxValue minValue
                                             (BubbleDataPoint.value point)\<rparr>) data;
              sorted_data = sort_key (\<lambda>a. - BubbleDataPoint.value a) data
          in (Some \<lparr>bubbles = drawn, legendMin = minValue, legendMax = maxValue,
                    cityList = sorted_data\<rparr>,
              sorted_data))"

text \<open>The radii of the drawn bubbles, in the order of \<open>data\<close>.\<close>

definition bubble_radii :: "real \<Rightarrow> BubbleDataPoint list \<Rightarrow> real list" where
  "bubble_radii height data =
     (case fst (BubbleMap height data) of
        None \<Rightarrow> []
      | Some view \<Rightarrow> map radius (bubbles view))"

section \<open>The line chart\<close>

record LineChartDataPoint =
  label :: string
  "value" :: real

text \<open>An element of \<open>points\<close>: \<open>{ x, y, ...item }\<close>.\<close>

record LinePoint = LineChartDataPoint +
  x :: jsnum
  y :: real

definition join :: "string \<Rightarrow> string list \<Rightarrow> string" where
  "join sep ss = (case ss of [] \<Rightarrow> [] | s # rest \<Rightarrow> s @ concat (map (\<lambda>t. sep @ t) rest))"

record LineGeometry =
  points :: "LinePoint list"
  pathD :: string
  areaPathD :: string

text \<open>
  The geometry of \<open>LineChart\<close>: \<open>None\<close> is the "No data available" box. \<open>digits\<close>
  is the text of a finite number in a template string.
\<close>

definition LineChart ::
  "(real \<Rightarrow> string) \<Rightarrow> real \<Rightarrow> LineChartDataPoint list \<Rightarrow> LineGeometry option" where
  "LineChart digits height data =
     (case data of
        [] \<Rightarrow> None
      | item0 # items \<Rightarrow>
          let maxValue = Math_max (LineChartDataPoint.value item0)
                           (map LineChartDataPoint.value items);
              minValue = Math_min (LineChartDataPoint.value item0)
                           (map LineChartDataPoint.value items);
              valueRange = (if maxValue - minValue \<noteq> 0 then maxValue - minValue else 1);
              chartHeight = height - 80;
              chartWidth = 100;
              pts = map (\<lambda>(index, item).
                           \<lparr>label = label item, LineChartDataPoint.value = LineChartDataPoint.value item,
                            LinePoint.x =
                              js_mul (js_div (real index) (real (length data) - 1)) chartWidth,
                            LinePoint.y =
                              chartHeight
                              - ((LineChartDataPoint.value item - minValue) / valueRange)
                                * chartHeight\<rparr>)
                      (enumerate 0 data);
              d = join '' ''
                    (map (\<lambda>(index, point).
                            (if index = 0 then ''M'' else ''L'') @ '' ''
                            @ js_toString digits (LinePoint.x point) @ '' ''
                            @ digits (LinePoint.y point))
                       (enumerate 0 pts))
          in Some \<lparr>points = pts, pathD = d,
                   areaPathD = d @ '' L '' @ digits chartWidth @ '' '' @ digits chartHeight
                               @ '' L 0 '' @ digits chartHeight @ '' Z''\<rparr>)"

section \<open>Example documents\<close>

definition example_regional :: "real RegionalCampaign MarketingData option" where
  "example_regional =
     Some \<lparr>campaigns = Some
       [\<lparr>regional_performance = Some
           [\<lparr>impressions = 100, clicks = 10, conversions = 1, spend = 0, revenue = 500,
             RegionalData.region = ''Dubai'', RegionalData.country = ''UAE''\<rparr>,
            \<lparr>impressions = 200, clicks = 20, conversions = 2, spend = 40, revenue = 50,
             RegionalData.region = ''Tokyo'', RegionalData.country = ''Japan''\<rparr>]\<rparr>,
        \<lparr>regional_performance = None\<rparr>,
        \<lparr>regional_performance = Some
           [\<lparr>impressions = 300, clicks = 30, conversions = 3, spend = 60, revenue = 70,
             RegionalData.region = ''Dubai'', RegionalData.country = ''Oman''\<rparr>]\<rparr>]\<rparr>"

definition example_device :: "real DeviceCampaign MarketingData option" where
  "example_device =
     Some \<lparr>campaigns = Some
       [\<lparr>campaign_name = ''Spring'', device_performance = Some
           [\<lparr>impressions = 100, clicks = 10, conversions = 1, spend = 0, revenue = 500,
             DeviceData.device = ''Mobile'', DeviceData.ctr = 10, percentage_of_traffic = 60\<rparr>,
            \<lparr>impressions = 200, clicks = 20, conversions = 2, spend = 40, revenue = 50,
             DeviceData.device = ''Desktop'', DeviceData.ctr = 10, percentage_of_traffic = 40\<rparr>]\<rparr>,
        \<lparr>campaign_name = ''Summer'', device_performance = None\<rparr>,
        \<lparr>campaign_name = ''Autumn'', device_performance = Some
           [\<lparr>impressions = 300, clicks = 30, conversions = 3, spend = 60, revenue = 70,
             DeviceData.device = ''Mobile'', DeviceData.ctr = 10, percentage_of_traffic = 100\<rparr>]\<rparr>]\<rparr>"

definition example_weekly :: "real WeeklyCampaign MarketingData option" where
  "example_weekly =
     Some \<lparr>campaigns = Some
       [\<lparr>weekly_performance = Some
           [\<lparr>impressions = 100, clicks = 10, conversions = 1, spend = 20, revenue = 500,
             week_start = ''2024-01-08'', week_end = ''2024-01-14''\<rparr>,
            \<lparr>impressions = 200, clicks = 20, conversions = 2, spend = 40, revenue = 50,
             week_start = ''2024-01-01'', week_end = ''2024-01-07''\<rparr>]\<rparr>,
        \<lparr>weekly_performance = None\<rparr>,
        \<lparr>weekly_performance = Some
           [\<lparr>impressions = 300, clicks = 30, conversions = 3, spend = 60, revenue = 70,
             week_start = ''2024-01-08'', week_end = ''2024-01-15''\<rparr>]\<rparr>]\<rparr>"

text \<open>A clock for the two dates of the example.\<close>

definition example_getTime :: "string \<Rightarrow> int" where
  "example_getTime s = (if s = ''2024-01-01'' then 1 else if s = ''2024-01-08'' then 8 else 0)"

text \<open>The three example documents with their numbers as doubles.\<close>

definition double_regional :: "jsnum RegionalCampaign MarketingData option" where
  "double_regional =
     Some \<lparr>campaigns = Some
       [\<lparr>regional_performance = Some
           [\<lparr>impressions = Fin 100, clicks = Fin 10, conversions = Fin 1, spend = Fin 0,
             revenue = Fin 500,
             RegionalData.region = ''Dubai'', RegionalData.country = ''UAE''\<rparr>,
            \<lparr>impressions = Fin 200, clicks = Fin 20, conversions = Fin 2, spend = Fin 40,
             revenue = Fin 50,
             RegionalData.region = ''Tokyo'', RegionalData.country = ''Japan''\<rparr>]\<rparr>,
        \<lparr>regional_performance = None\<rparr>,
        \<lparr>regional_performance = Some
           [\<lparr>impressions = Fin 300, clicks = Fin 30, conversions = Fin 3, spend = Fin 60,
             revenue = Fin 70,
             RegionalData.region = ''Dubai'', RegionalData.country = ''Oman''\<rparr>]\<rparr>]\<rparr>"

definition double_device :: "jsnum DeviceCampaign MarketingData option" where
  "double_device =
     Some \<lparr>campaigns = Some
       [\<lparr>campaign_name = ''Spring'', device_performance = Some
           [\<lparr>impressions = Fin 100, clicks = Fin 10, conversions = Fin 1, spend = Fin 0,
             revenue = Fin 500,
             DeviceData.device = ''Mobile'', DeviceData.ctr = Fin 10,
             percentage_of_traffic = Fin 60\<rparr>,
            \<lparr>impressions = Fin 200, clicks = Fin 20, conversions = Fin 2, spend = Fin 40,
             revenue = Fin 50,
             DeviceData.device = ''Desktop'', DeviceData.ctr = Fin 10,
             percentage_of_traffic = Fin 40\<rparr>]\<rparr>,
        \<lparr>campaign_name = ''Summer'', device_performance = None\<rparr>,
        \<lparr>campaign_name = ''Autumn'', device_performance = Some
           [\<lparr>impressions = Fin 300, clicks = Fin 30, conversions = Fin 3, spend = Fin 60,
             revenue = Fin 70,
             DeviceData.device = ''Mobile'', DeviceData.ctr = Fin 10,
             percentage_of_traffic = Fin 100\<rparr>]\<rparr>]\<rparr>"

definition double_weekly :: "jsnum WeeklyCampaign MarketingData option" where
  "double_weekly =
     Some \<lparr>campaigns = Some
       [\<lparr>weekly_performance = Some
           [\<lparr>impressions = Fin 100, clicks = Fin 10, conversions = Fin 1, spend = Fin 20,
             revenue = Fin 500,
             week_start = ''2024-01-08'', week_end = ''2024-01-14''\<rparr>,
            \<lparr>impressions = Fin 200, clicks = Fin 20, conversions = Fin 2, spend = Fin 40,
             revenue = Fin 50,
             week_start = ''2024-01-01'', week_end = ''2024-01-07''\<rparr>]\<rparr>,
        \<lparr>weekly_performance = None\<rparr>,
        \<lparr>weekly_performance = Some
           [\<lparr>impressions = Fin 300, clicks = Fin 30, conversions = Fin 3, spend = Fin 60,
             revenue = Fin 70,
             week_start = ''2024-01-08'', week_end = ''2024-01-15''\<rparr>]\<rparr>]\<rparr>"

text \<open>
  Two records of one region whose revenues are \<open>2 ^ 53\<close> and 1: their exact sum,
  \<open>2 ^ 53 + 1\<close>, is not a double.
\<close>

definition rounded_regional :: "jsnum RegionalCampaign MarketingData option" where
  "rounded_regional =
     Some \<lparr>campaigns = Some
       [\<lparr>regional_performance = Some
           [\<lparr>impressions = Fin 100, clicks = Fin 10, conversions = Fin 1, spend = Fin 20,
             revenue = Fin 9007199254740992,
             RegionalData.region = ''Dubai'', RegionalData.country = ''UAE''\<rparr>,
            \<lparr>impressions = Fin 300, clicks = Fin 30, conversions = Fin 3, spend = Fin 60,
             revenue = Fin 1,
             RegionalData.region = ''Dubai'', RegionalData.country = ''UAE''\<rparr>]\<rparr>]\<rparr>"

text \<open>Two points for the bubble map, the smaller value first.\<close>

definition example_bubbles :: "BubbleDataPoint list" where
  "example_bubbles =
     [\<lparr>city = ''Dubai'', BubbleDataPoint.country = ''UAE'', BubbleDataPoint.value = 1000,
       secondaryValue = Some 0, BubbleDataPoint.x = 55, BubbleDataPoint.y = 25\<rparr>,
      \<lparr>city = ''Cairo'', BubbleDataPoint.country = ''Egypt'', BubbleDataPoint.value = 5000,
       secondaryValue = Some 0, BubbleDataPoint.x = 31, BubbleDataPoint.y = 30\<rparr>]"

text \<open>A region and a device record with revenue and no spend.\<close>

definition zero_spend_regional :: "real RegionalCampaign MarketingData option" where
  "zero_spend_regional =
     Some \<lparr>campaigns = Some
       [\<lparr>regional_performance = Some
           [\<lparr>impressions = 100, clicks = 10, conversions = 1, spend = 0, revenue = 500,
             RegionalData.region = ''Dubai'', RegionalData.country = ''UAE''\<rparr>]\<rparr>]\<rparr>"

definition zero_spend_device :: "real DeviceCampaign MarketingData option" where
  "zero_spend_device =
     Some \<lparr>campaigns = Some
       [\<lparr>campaign_name = ''Spring'', device_performance = Some
           [\<lparr>impressions = 100, clicks = 10, conversions = 1, spend = 0, revenue = 500,
             DeviceData.device = ''Mobile'', DeviceData.ctr = 10,
             percentage_of_traffic = 100\<rparr>]\<rparr>]\<rparr>"

section \<open>Grouping, in general\<close>

text \<open>
  The three Map-based aggregations share one step: create the bucket of the record's key
  from the record if the key is new, then add the record into the bucket.
\<close>

definition upsert ::
  "('r \<Rightarrow> 'k) \<Rightarrow> ('r \<Rightarrow> 'v) \<Rightarrow> ('r \<Rightarrow> 'v \<Rightarrow> 'v) \<Rightarrow> 'r \<Rightarrow> ('k \<times> 'v) list \<Rightarrow> ('k \<times> 'v) list" where
  "upsert key init add r m =
     AList.update (key r) (add r (case map_of m (key r) of None \<Rightarrow> init r | Some e \<Rightarrow> e)) m"

text \<open>What the bucket of key \<open>k\<close> holds after the records \<open>rs\<close>, for an empty start.\<close>

definition bucket_of ::
  "('r \<Rightarrow> 'k) \<Rightarrow> ('r \<Rightarrow> 'v) \<Rightarrow> ('r \<Rightarrow> 'v \<Rightarrow> 'v) \<Rightarrow> 'r list \<Rightarrow> 'k \<Rightarrow> 'v option" where
  "bucket_of key init add rs k =
     (case filter (\<lambda>r. key r = k) rs of
        [] \<Rightarrow> None
      | r0 # rest \<Rightarrow> Some (fold add (r0 # rest) (init r0)))"

text \<open>The bucket that each aggregation creates for a new key, and what it adds per record.\<close>

definition regional_init :: "'n::zero RegionalData \<Rightarrow> 'n RegionalStats" where
  "regional_init r =
     \<lparr>impressions = 0, clicks = 0, conversions = 0, spend = 0, revenue = 0,
      RegionalStats.country = RegionalData.country r\<rparr>"

definition weekly_init :: "'n::zero WeeklyData \<Rightarrow> 'n WeeklyStats" where
  "weekly_init r =
     \<lparr>impressions = 0, clicks = 0, conversions = 0, spend = 0, revenue = 0,
      weekStart = week_start r, weekEnd = week_end r\<rparr>"

definition device_init :: "'n::zero DeviceData \<Rightarrow> 'n DeviceStats" where
  "device_init r =
     \<lparr>impressions = 0, clicks = 0, conversions = 0, spend = 0, revenue = 0, traffic = 0\<rparr>"

definition add_totals ::
  "('n::plus, 'a) PerformanceRecord_scheme \<Rightarrow> ('n, 'b) PerformanceRecord_scheme
     \<Rightarrow> ('n, 'b) PerformanceRecord_scheme" where
  "add_totals r existing =
     existing\<lparr>spend := spend existing + spend r,
              revenue := revenue existing + revenue r,
              impressions := impressions existing + impressions r,
              clicks := clicks existing + clicks r,
              conversions := conversions existing + conversions r\<rparr>"

definition device_add :: "'n::plus DeviceData \<Rightarrow> 'n DeviceStats \<Rightarrow> 'n DeviceStats" where
  "device_add r existing =
     existing\<lparr>impressions := impressions existing + impressions r,
              clicks := clicks existing + clicks r,
              conversions := conversions existing + conversions r,
              spend := spend existing + spend r,
              revenue := revenue existing + revenue r,
              traffic := traffic existing + percentage_of_traffic r\<rparr>"

text \<open>
  The five totals of \<open>row\<close> are what adding the five fields of the records \<open>rs\<close>
  to 0 gives, one record after the other in the order of the list.
\<close>

definition accumulates ::
  "('n::{zero, plus}, 'a) PerformanceRecord_scheme
     \<Rightarrow> ('n, 'b) PerformanceRecord_scheme list \<Rightarrow> bool" where
  "accumulates row rs \<longleftrightarrow>
     impressions row = foldl (+) 0 (map impressions rs) \<and>
     clicks row = foldl (+) 0 (map clicks rs) \<and>
     conversions row = foldl (+) 0 (map conversions rs) \<and>
     spend row = foldl (+) 0 (map spend rs) \<and>
     revenue row = foldl (+) 0 (map revenue rs)"

text \<open>
  The finite values of a list of numbers, if all of them are finite; and a total \<open>t\<close> that
  is the exact sum of the numbers \<open>js\<close> whenever these are integers whose running sum
  stays within \<open>2 ^ 53\<close>.
\<close>

fun finite_values :: "jsnum list \<Rightarrow> real list option" where
  "finite_values [] = Some []"
| "finite_values (Fin v # js) = map_option ((#) v) (finite_values js)"
| "finite_values (q # js) = None"

definition exact_if_small :: "jsnum \<Rightarrow> jsnum list \<Rightarrow> bool" where
  "exact_if_small t js =
     (case finite_values js of
        None \<Rightarrow> True
      | Some vs \<Rightarrow> if small_ints 0 vs then t = Fin (sum_list vs) else True)"

definition exact_totals ::
  "(jsnum, 'a) PerformanceRecord_scheme \<Rightarrow> (jsnum, 'b) PerformanceRecord_scheme list \<Rightarrow> bool" where
  "exact_totals row rs \<longleftrightarrow>
     exact_if_small (impressions row) (map impressions rs) \<and>
     exact_if_small (clicks row) (map clicks rs) \<and>
     exact_if_small (conversions row) (map conversions rs) \<and>
     exact_if_small (spend row) (map spend rs) \<and>
     exact_if_small (revenue row) (map revenue rs)"

section \<open>Properties of the grouping step\<close>

lemma map_of_upsert:
  "map_of (upsert key init add r m) =
     (map_of m)(key r \<mapsto> add r (case map_of m (key r) of None \<Rightarrow> init r | Some e \<Rightarrow> e))"
  by (simp add: upsert_def update_conv')

lemma keys_upsert:
  "fst ` set (upsert key init add r m) = insert (key r) (fst ` set m)"
  by (simp add: upsert_def dom_update)

lemma distinct_upsert:
  "distinct (map fst m) \<Longrightarrow> distinct (map fst (upsert key init add r m))"
  by (simp add: upsert_def distinct_update)

lemma keys_fold_upsert:
  "fst ` set (fold (upsert key init add) rs m) = key ` set rs \<union> fst ` set m"
  by (induction rs arbitrary: m) (auto simp: keys_upsert)

lemma distinct_fold_upsert:
  "distinct (map fst m) \<Longrightarrow> distinct (map fst (fold (upsert key init add) rs m))"
  by (induction rs arbitrary: m) (auto simp: distinct_upsert)

lemma map_of_fold_upsert:
  "map_of (fold (upsert key init add) rs m) k =
     (case map_of m k of
        Some e \<Rightarrow> Some (fold add (filter (\<lambda>r. key r = k) rs) e)
      | None \<Rightarrow> bucket_of key init add rs k)"
proof (induction rs arbitrary: m)
  case Nil
  show ?case by (simp add: bucket_of_def split: option.splits)
next
  case (Cons r rs)
  show ?case
  proof (cases "key r = k")
    case True
    then show ?thesis
      by (simp add: Cons.IH map_of_upsert bucket_of_def split: option.splits)
  next
    case False
    then show ?thesis
      by (simp add: Cons.IH map_of_upsert bucket_of_def split: option.splits)
  qed
qed

lemma map_of_fold_upsert_Nil:
  "map_of (fold (upsert key init add) rs []) k = bucket_of key init add rs k"
  by (simp add: map_of_fold_upsert)

lemma fold_field_sum:
  assumes "\<And>r e. f (add r e) = f e + g r"
  shows "f (fold add rs e) = f e + sum_list (map g rs)"
  using assms by (induction rs arbitrary: e) (auto simp: algebra_simps)

lemma fold_field_foldl:
  assumes "\<And>r e. f (add r e) = f e + g r"
  shows "f (fold add rs e) = foldl (+) (f e) (map g rs)"
  by (induction rs arbitrary: e) (simp_all add: assms)

lemma fold_field_keep:
  assumes "\<And>r e. f (add r e) = f e"
  shows "f (fold add rs e) = f e"
  using assms by (induction rs arbitrary: e) auto

lemma filter_Cons_find: "filter P rs = r0 # rest \<Longrightarrow> find P rs = Some r0"
  by (induction rs) (auto split: if_splits)

lemma entry_bucket:
  assumes "(k, d) \<in> set (fold (upsert key init add) rs [])"
  shows "bucket_of key init add rs k = Some d"
proof -
  have "distinct (map fst (fold (upsert key init add) rs []))"
    by (rule distinct_fold_upsert) simp
  then have "map_of (fold (upsert key init add) rs []) k = Some d"
    using assms by (rule map_of_is_SomeI)
  then show ?thesis by (simp add: map_of_fold_upsert_Nil)
qed


lemma bucket_field_foldl:
  assumes b: "bucket_of key init add rs k = Some d"
    and step: "\<And>r e. f (add r e) = f e + g r"
    and start: "\<And>r. f (init r) = 0"
  shows "f d = foldl (+) 0 (map g (filter (\<lambda>r. key r = k) rs))"
proof -
  from b obtain r0 rest where fl: "filter (\<lambda>r. key r = k) rs = r0 # rest"
    and d: "d = fold add (r0 # rest) (init r0)"
    by (auto simp: bucket_of_def split: list.splits)
  have "f d = foldl (+) (f (init r0)) (map g (r0 # rest))"
    unfolding d by (rule fold_field_foldl) (rule step)
  then show ?thesis by (simp only: start fl)
qed

lemma bucket_field_first:
  assumes b: "bucket_of key init add rs k = Some d"
    and step: "\<And>r e. f (add r e) = f e"
  shows "\<exists>r0. find (\<lambda>r. key r = k) rs = Some r0 \<and> f d = f (init r0)"
proof -
  from b obtain r0 rest where fl: "filter (\<lambda>r. key r = k) rs = r0 # rest"
    and d: "d = fold add (r0 # rest) (init r0)"
    by (auto simp: bucket_of_def split: list.splits)
  have "f d = f (init r0)"
    unfolding d by (rule fold_field_keep) (rule step)
  with filter_Cons_find[OF fl] show ?thesis by blast
qed

section \<open>The regional aggregation\<close>

lemma regional_forEach_upsert:
  "regional_forEach = upsert RegionalData.region regional_init add_totals"
  by (auto simp: fun_eq_iff regional_forEach_def upsert_def Map_has_def Map_get_def Map_set_def
        Let_def update_conv' regional_init_def add_totals_def split: option.splits)

lemma fold_regional_campaigns:
  "fold regional_campaign_forEach cs m =
     fold regional_forEach
       (concat (map (\<lambda>c. case regional_performance c of None \<Rightarrow> [] | Some rs \<Rightarrow> rs) cs)) m"
  by (induction cs arbitrary: m) (auto simp: regional_campaign_forEach_def split: option.splits)

lemma aggregatedRegionalData_eq:
  "aggregatedRegionalData data =
     map regional_row (fold (upsert RegionalData.region regional_init add_totals) (regional_records data) [])"
  by (auto simp: aggregatedRegionalData_def regional_records_def Map_entries_def
        fold_regional_campaigns regional_forEach_upsert split: option.splits)

lemma bucket_add_totals:
  assumes b: "bucket_of key init add_totals rs k = Some d"
    and start: "\<And>r. impressions (init r) = 0 \<and> clicks (init r) = 0 \<and> conversions (init r) = 0
                  \<and> spend (init r) = 0 \<and> revenue (init r) = 0"
  shows "accumulates d (filter (\<lambda>r. key r = k) rs)"
  unfolding accumulates_def
  by (intro conjI; rule bucket_field_foldl[OF b]; simp add: add_totals_def start)

lemma regional_rows_sum:
  assumes "row \<in> set (aggregatedRegionalData data)"
  shows "accumulates row (filter (\<lambda>r. RegionalData.region r = RegionalRow.region row) (regional_records data))"
proof -
  from assms obtain k d where
    kd: "(k, d) \<in> set (fold (upsert RegionalData.region regional_init add_totals) (regional_records data) [])"
    and row: "row = regional_row (k, d)"
    by (auto simp: aggregatedRegionalData_eq)
  have "accumulates d (filter (\<lambda>r. RegionalData.region r = k) (regional_records data))"
    by (rule bucket_add_totals[OF entry_bucket[OF kd]]) (simp add: regional_init_def)
  then show ?thesis by (simp add: row regional_row_def accumulates_def)
qed

lemma regional_keys:
  "set (map RegionalRow.region (aggregatedRegionalData data)) = RegionalData.region ` set (regional_records data)"
  "distinct (map RegionalRow.region (aggregatedRegionalData data))"
proof -
  let ?M = "fold (upsert RegionalData.region regional_init add_totals) (regional_records data) []"
  have m: "map RegionalRow.region (aggregatedRegionalData data) = map fst ?M"
    by (simp add: aggregatedRegionalData_eq regional_row_def split_def comp_def)
  show "set (map RegionalRow.region (aggregatedRegionalData data)) = RegionalData.region ` set (regional_records data)"
    unfolding m using keys_fold_upsert[of RegionalData.region regional_init add_totals "regional_records data" "[]"] by simp
  show "distinct (map RegionalRow.region (aggregatedRegionalData data))"
    unfolding m by (rule distinct_fold_upsert) simp
qed

lemma regional_first_country:
  assumes "row \<in> set (aggregatedRegionalData data)"
  shows "map_option RegionalData.country (find (\<lambda>r. RegionalData.region r = RegionalRow.region row) (regional_records data))
         = Some (RegionalStats.country row)"
proof -
  from assms obtain k d where
    kd: "(k, d) \<in> set (fold (upsert RegionalData.region regional_init add_totals) (regional_records data) [])"
    and row: "row = regional_row (k, d)"
    by (auto simp: aggregatedRegionalData_eq)
  have "\<exists>r0. find (\<lambda>r. RegionalData.region r = k) (regional_records data) = Some r0
          \<and> RegionalStats.country d = RegionalStats.country (regional_init r0)"
    by (rule bucket_field_first[OF entry_bucket[OF kd]]) (simp add: add_totals_def)
  then show ?thesis by (auto simp: row regional_row_def regional_init_def)
qed

section \<open>The device aggregation\<close>

lemma device_forEach_upsert:
  "device_forEach = upsert DeviceData.device device_init device_add"
  by (auto simp: fun_eq_iff device_forEach_def upsert_def Map_has_def Map_get_def Map_set_def
        Let_def update_conv' device_init_def device_add_def add_totals_def split: option.splits)

lemma fold_device_campaigns:
  "fold device_campaign_forEach cs m =
     fold device_forEach
       (concat (map (\<lambda>c. case device_performance c of None \<Rightarrow> [] | Some rs \<Rightarrow> rs) cs)) m"
  by (induction cs arbitrary: m) (auto simp: device_campaign_forEach_def split: option.splits)

lemma aggregatedDeviceData_eq:
  "aggregatedDeviceData data =
     map device_row (fold (upsert DeviceData.device device_init device_add) (device_records data) [])"
  by (auto simp: aggregatedDeviceData_def device_records_def Map_entries_def
        fold_device_campaigns device_forEach_upsert split: option.splits)

lemma bucket_device_add:
  assumes b: "bucket_of key device_init device_add rs k = Some d"
  shows "accumulates d (filter (\<lambda>r. key r = k) rs)"
  unfolding accumulates_def
  by (intro conjI; rule bucket_field_foldl[OF b];
      simp add: device_add_def add_totals_def device_init_def)

lemma device_rows_sum:
  assumes "row \<in> set (aggregatedDeviceData data)"
  shows "accumulates row
           (filter (\<lambda>r. DeviceData.device r = DeviceRow.device row) (device_records data))"
proof -
  from assms obtain k d where
    kd: "(k, d) \<in> set (fold (upsert DeviceData.device device_init device_add)
                         (device_records data) [])"
    and row: "row = device_row (k, d)"
    by (auto simp: aggregatedDeviceData_eq)
  have "accumulates d (filter (\<lambda>r. DeviceData.device r = k) (device_records data))"
    by (rule bucket_device_add[OF entry_bucket[OF kd]])
  then show ?thesis by (simp add: row device_row_def accumulates_def)
qed

lemma device_keys:
  "set (map DeviceRow.device (aggregatedDeviceData data))
     = DeviceData.device ` set (device_records data)"
  "distinct (map DeviceRow.device (aggregatedDeviceData data))"
proof -
  let ?M = "fold (upsert DeviceData.device device_init device_add) (device_records data) []"
  have m: "map DeviceRow.device (aggregatedDeviceData data) = map fst ?M"
    by (simp add: aggregatedDeviceData_eq device_row_def split_def comp_def)
  show "set (map DeviceRow.device (aggregatedDeviceData data))
          = DeviceData.device ` set (device_records data)"
    unfolding m
    using keys_fold_upsert[of DeviceData.device device_init device_add "device_records data" "[]"]
    by simp
  show "distinct (map DeviceRow.device (aggregatedDeviceData data))"
    unfolding m by (rule distinct_fold_upsert) simp
qed

section \<open>The weekly aggregation\<close>

lemma weekly_forEach_upsert:
  "weekly_forEach = upsert week_start weekly_init add_totals"
  by (auto simp: fun_eq_iff weekly_forEach_def upsert_def Map_has_def Map_get_def Map_set_def
        Let_def update_conv' weekly_init_def add_totals_def split: option.splits)

lemma fold_weekly_campaigns:
  "fold weekly_campaign_forEach cs m =
     fold weekly_forEach
       (concat (map (\<lambda>c. case weekly_performance c of None \<Rightarrow> [] | Some rs \<Rightarrow> rs) cs)) m"
  by (induction cs arbitrary: m) (auto simp: weekly_campaign_forEach_def split: option.splits)

lemma aggregatedWeeklyData_eq:
  "aggregatedWeeklyData getTime data =
     sort_key (\<lambda>a. getTime (weekStart a))
       (map snd (fold (upsert week_start weekly_init add_totals) (weekly_records data) []))"
  by (auto simp: aggregatedWeeklyData_def weekly_records_def Map_values_def
        fold_weekly_campaigns weekly_forEach_upsert split: option.splits)

lemma weekly_entry_key:
  assumes kd: "(k, d) \<in> set (fold (upsert week_start weekly_init add_totals) rs [])"
  shows "weekStart d = k"
proof -
  have "\<exists>r0. find (\<lambda>r. week_start r = k) rs = Some r0 \<and> weekStart d = weekStart (weekly_init r0)"
    by (rule bucket_field_first[OF entry_bucket[OF kd]]) (simp add: add_totals_def)
  then show ?thesis by (auto simp: weekly_init_def find_Some_iff)
qed

lemma weekly_values_keys:
  "map weekStart (map snd (fold (upsert week_start weekly_init add_totals) rs []))
     = map fst (fold (upsert week_start weekly_init add_totals) rs [])"
  by (auto simp: weekly_entry_key)

lemma distinct_map_insort_key:
  "distinct (map g (insort_key f a xs)) \<longleftrightarrow> g a \<notin> g ` set xs \<and> distinct (map g xs)"
  by (induction xs) (auto simp: set_insort_key)

lemma distinct_map_sort_key:
  "distinct (map g (sort_key f xs)) \<longleftrightarrow> distinct (map g xs)"
  by (induction xs) (auto simp: distinct_map_insort_key)

lemma weekly_rows_sum:
  assumes "row \<in> set (aggregatedWeeklyData getTime data)"
  shows "accumulates row (filter (\<lambda>r. week_start r = weekStart row) (weekly_records data))"
proof -
  from assms obtain k where
    kd: "(k, row) \<in> set (fold (upsert week_start weekly_init add_totals) (weekly_records data) [])"
    by (auto simp: aggregatedWeeklyData_eq)
  have k: "weekStart row = k" by (rule weekly_entry_key[OF kd])
  have "accumulates row (filter (\<lambda>r. week_start r = k) (weekly_records data))"
    by (rule bucket_add_totals[OF entry_bucket[OF kd]]) (simp add: weekly_init_def)
  then show ?thesis by (simp add: k)
qed

lemma weekly_keys:
  "set (map weekStart (aggregatedWeeklyData getTime data)) = week_start ` set (weekly_records data)"
  "distinct (map weekStart (aggregatedWeeklyData getTime data))"
proof -
  let ?M = "fold (upsert week_start weekly_init add_totals) (weekly_records data) []"
  have "set (map weekStart (aggregatedWeeklyData getTime data)) = set (map weekStart (map snd ?M))"
    by (simp add: aggregatedWeeklyData_eq image_image)
  also have "\<dots> = fst ` set ?M" unfolding weekly_values_keys by simp
  finally show "set (map weekStart (aggregatedWeeklyData getTime data))
                  = week_start ` set (weekly_records data)"
    using keys_fold_upsert[of week_start weekly_init add_totals "weekly_records data" "[]"]
    by simp
  have "distinct (map fst ?M)" by (rule distinct_fold_upsert) simp
  then show "distinct (map weekStart (aggregatedWeeklyData getTime data))"
    by (simp add: aggregatedWeeklyData_eq distinct_map_sort_key weekly_values_keys
          del: map_map)
qed

lemma weekly_first_week_end:
  assumes "row \<in> set (aggregatedWeeklyData getTime data)"
  shows "map_option week_end (find (\<lambda>r. week_start r = weekStart row) (weekly_records data))
         = Some (weekEnd row)"
proof -
  from assms obtain k where
    kd: "(k, row) \<in> set (fold (upsert week_start weekly_init add_totals) (weekly_records data) [])"
    by (auto simp: aggregatedWeeklyData_eq)
  have k: "weekStart row = k" by (rule weekly_entry_key[OF kd])
  have "\<exists>r0. find (\<lambda>r. week_start r = k) (weekly_records data) = Some r0
          \<and> weekEnd row = weekEnd (weekly_init r0)"
    by (rule bucket_field_first[OF entry_bucket[OF kd]]) (simp add: add_totals_def)
  then show ?thesis by (auto simp: k weekly_init_def)
qed

section \<open>Sums of doubles\<close>

lemma scale2_pos: "0 < scale2 e"
  by (simp add: scale2_def)

lemma round_half_even_int: "round_half_even (of_int j) = j"
  by (simp add: round_half_even_def)

lemma floor_log2_bounds:
  assumes "2 ^ n \<le> v" "v < 2 ^ Suc n"
  shows "\<lfloor>log 2 v\<rfloor> = int n"
proof -
  from assms have pos: "0 < v" by (smt (verit) zero_less_power)
  have "2 powr (real_of_int (int n)) \<le> v \<and> v < 2 powr (real_of_int (int n + 1))"
    using assms by (simp add: powr_realpow powr_add)
  with floor_log_eq_powr_iff[of v 2 "int n"] pos show ?thesis by simp
qed

lemma floor_log2_bounds_neg:
  assumes "1 / 2 ^ n \<le> v" "v < 1 / 2 ^ (n - 1)" "0 < n"
  shows "\<lfloor>log 2 v\<rfloor> = - int n"
proof -
  from assms have pos: "0 < v" by (smt (verit) zero_less_power divide_pos_pos)
  have a: "2 powr (real_of_int (- int n)) = 1 / 2 ^ n"
    by (simp add: powr_minus powr_realpow field_simps)
  have "real_of_int (- int n + 1) = - real (n - 1)" using assms(3) by (simp add: of_nat_diff)
  then have "2 powr (real_of_int (- int n + 1)) = 2 powr (- real (n - 1))" by (simp only:)
  also have "\<dots> = 1 / 2 ^ (n - 1)"
    by (simp add: powr_minus_divide powr_realpow)
  finally have b: "2 powr (real_of_int (- int n + 1)) = 1 / 2 ^ (n - 1)" .
  from a b assms have "2 powr (real_of_int (- int n)) \<le> v \<and> v < 2 powr (real_of_int (- int n + 1))"
    by simp
  with floor_log_eq_powr_iff[of v 2 "- int n"] pos show ?thesis by simp
qed

lemma floor_log2_int_range:
  assumes "1 \<le> v" "v \<le> 2 ^ 53"
  shows "0 \<le> \<lfloor>log 2 v\<rfloor>" and "\<lfloor>log 2 v\<rfloor> \<le> 53"
    and "\<lfloor>log 2 v\<rfloor> = 53 \<Longrightarrow> v = 2 ^ 53"
proof -
  from assms have pos: "0 < v" by simp
  have l0: "0 \<le> log 2 v" using assms(1) by simp
  then show "0 \<le> \<lfloor>log 2 v\<rfloor>" by simp
  have "log 2 v \<le> log 2 (2 ^ 53)" using assms pos by (simp only: log_le_cancel_iff)
  moreover have "log 2 ((2::real) ^ 53) = 53" using log_pow_cancel[of "2::real" 53] by simp
  ultimately have l53: "log 2 v \<le> 53" by linarith
  then show "\<lfloor>log 2 v\<rfloor> \<le> 53" by (simp add: floor_le_iff)
  assume "\<lfloor>log 2 v\<rfloor> = 53"
  then have "53 \<le> log 2 v" by (simp add: floor_eq_iff)
  with l53 have "log 2 v = 53" by simp
  moreover have "2 powr (log 2 v) = v" using pos by simp
  ultimately have "v = 2 powr 53" by simp
  then show "v = 2 ^ 53" by simp
qed

lemma round_double_int:
  assumes "\<bar>n\<bar> \<le> 2 ^ 53"
  shows "round_double (of_int n) = Fin (of_int n)"
proof (cases "n = 0")
  case True
  then show ?thesis by (simp add: round_double_def)
next
  case False
  define v :: real where "v = \<bar>of_int n\<bar>"
  define k where "k = \<lfloor>log 2 v\<rfloor>"
  from False have v1: "1 \<le> v" unfolding v_def by (simp add: abs_if)
  from assms have "real_of_int \<bar>n\<bar> \<le> real_of_int (2 ^ 53)" by (simp only: of_int_le_iff)
  then have v53: "v \<le> 2 ^ 53" unfolding v_def by simp
  note rng = floor_log2_int_range[OF v1 v53, folded k_def]
  have e: "max (k - 52) (- 1074) = k - 52" using rng(1) by simp
  have exact: "\<exists>j. of_int n / scale2 (k - 52) = real_of_int j"
  proof (cases "k = 53")
    case True
    with rng(3) have "v = 2 ^ 53" by simp
    then have "of_int n = (2::real) ^ 53 \<or> of_int n = - ((2::real) ^ 53)"
      unfolding v_def by (simp add: abs_if split: if_splits)
    then have "of_int n / scale2 (k - 52) = real_of_int (2 ^ 52) \<or>
               of_int n / scale2 (k - 52) = real_of_int (- (2 ^ 52))"
      using True by (auto simp: scale2_def)
    then show ?thesis by blast
  next
    case False
    with rng(2) have le: "k - 52 \<le> 0" by simp
    show ?thesis
    proof (cases "k - 52 = 0")
      case True
      then have "of_int n / scale2 (k - 52) = real_of_int n" by (simp add: scale2_def)
      then show ?thesis by blast
    next
      case False
      with le have "k - 52 < 0" by simp
      then have "of_int n / scale2 (k - 52) = real_of_int (n * 2 ^ nat (- (k - 52)))"
        by (simp add: scale2_def)
      then show ?thesis by blast
    qed
  qed
  then obtain j where j: "of_int n / scale2 (k - 52) = real_of_int j" by blast
  have r: "of_int (round_half_even (of_int n / scale2 (k - 52))) * scale2 (k - 52) = of_int n"
    unfolding j round_half_even_int using j scale2_pos[of "k - 52"]
    by (simp add: field_simps)
  have b1: "real_of_int n < 2 ^ 1024"
  proof -
    have "real_of_int n \<le> v" unfolding v_def by simp
    also have "\<dots> \<le> 2 ^ 53" by (rule v53)
    also have "\<dots> < (2::real) ^ 1024" by simp
    finally show ?thesis .
  qed
  have b2: "- (2 ^ 1024) < real_of_int n"
  proof -
    have "- real_of_int n \<le> v" unfolding v_def by simp
    also have "\<dots> \<le> 2 ^ 53" by (rule v53)
    also have "\<dots> < (2::real) ^ 1024" by simp
    finally show ?thesis by simp
  qed
  from False have nz: "real_of_int n \<noteq> 0" by simp
  show ?thesis
    using nz b1 b2
    by (simp add: round_double_def Let_def e r v_def[symmetric] k_def[symmetric])
qed

lemma js_add_ints:
  assumes "a = of_int \<lfloor>a\<rfloor>" "v = of_int \<lfloor>v\<rfloor>" "\<bar>a + v\<bar> \<le> 2 ^ 53"
  shows "js_add (Fin a) (Fin v) = Fin (a + v)" and "a + v = of_int \<lfloor>a + v\<rfloor>"
proof -
  have s: "a + v = of_int (\<lfloor>a\<rfloor> + \<lfloor>v\<rfloor>)" using assms(1,2) by simp
  then show "a + v = of_int \<lfloor>a + v\<rfloor>" by (metis floor_of_int)
  from assms(3) have "real_of_int \<bar>\<lfloor>a\<rfloor> + \<lfloor>v\<rfloor>\<bar> \<le> real_of_int (2 ^ 53)"
    unfolding s by simp
  then have "\<bar>\<lfloor>a\<rfloor> + \<lfloor>v\<rfloor>\<bar> \<le> 2 ^ 53" by (simp only: of_int_le_iff)
  from round_double_int[OF this] show "js_add (Fin a) (Fin v) = Fin (a + v)"
    by (simp only: js_add.simps s)
qed

lemma foldl_js_add_small:
  assumes "a = of_int \<lfloor>a\<rfloor>" "small_ints a vs"
  shows "foldl (+) (Fin a) (map Fin vs) = Fin (a + sum_list vs)"
  using assms
proof (induction vs arbitrary: a)
  case Nil
  show ?case by simp
next
  case (Cons v vs)
  from Cons.prems(2) have v: "v = of_int \<lfloor>v\<rfloor>" and b: "\<bar>a + v\<bar> \<le> 2 ^ 53"
    and rest: "small_ints (a + v) vs" by simp_all
  note st = js_add_ints[OF Cons.prems(1) v b]
  have "Fin a + Fin v = Fin (a + v)" by (simp only: plus_jsnum_def st(1))
  then have "foldl (+) (Fin a) (map Fin (v # vs)) = foldl (+) (Fin (a + v)) (map Fin vs)"
    by (simp only: list.map foldl_Cons)
  also have "\<dots> = Fin (a + v + sum_list vs)" by (rule Cons.IH[OF st(2) rest])
  finally show ?case by (simp add: add.assoc)
qed

lemma finite_values_Some: "finite_values js = Some vs \<Longrightarrow> js = map Fin vs"
  by (induction js arbitrary: vs rule: finite_values.induct) auto

lemma foldl_exact_if_small: "exact_if_small (foldl (+) 0 js) js"
proof (cases "finite_values js")
  case None
  then show ?thesis by (simp add: exact_if_small_def)
next
  case (Some vs)
  then have js: "js = map Fin vs" by (rule finite_values_Some)
  show ?thesis
  proof (cases "small_ints 0 vs")
    case True
    have "foldl (+) (Fin 0) (map Fin vs) = Fin (0 + sum_list vs)"
      by (rule foldl_js_add_small) (simp_all add: True)
    then show ?thesis using Some True by (simp add: exact_if_small_def js zero_jsnum_def)
  next
    case False
    then show ?thesis using Some by (simp add: exact_if_small_def)
  qed
qed

lemma accumulates_exact: "accumulates row rs \<Longrightarrow> exact_totals row rs"
  by (simp add: accumulates_def exact_totals_def foldl_exact_if_small)

lemma js_add_2_53: "js_add (Fin 9007199254740992) (Fin 1) = Fin 9007199254740992"
proof -
  have "\<lfloor>log 2 \<bar>9007199254740993::real\<bar>\<rfloor> = int 53"
    by (rule floor_log2_bounds) simp_all
  then show ?thesis
    by (simp add: round_double_def scale2_def round_half_even_def Let_def)
qed

text \<open>
  Two more sums, as every engine computes them: \<open>0.1 + 0.2\<close>, on the doubles nearest
  to 0.1 and 0.2, is 0.30000000000000004, and \<open>2 ^ 1023 + 2 ^ 1023\<close> is infinite.
\<close>

lemma js_add_tenths:
  "js_add (Fin (3602879701896397 / 2 ^ 55)) (Fin (3602879701896397 / 2 ^ 54))
     = Fin (5404319552844596 / 2 ^ 54)"
proof -
  have "\<lfloor>log 2 \<bar>3602879701896397 / 2 ^ 55 + 3602879701896397 / 2 ^ 54 :: real\<bar>\<rfloor> = - int 2"
    by (rule floor_log2_bounds_neg) simp_all
  then show ?thesis
    by (simp add: round_double_def scale2_def round_half_even_def Let_def)
qed

lemma js_add_overflow: "js_add (Fin (2 ^ 1023)) (Fin (2 ^ 1023)) = PosInf"
proof -
  have "\<lfloor>log 2 \<bar>2 ^ 1023 + 2 ^ 1023 :: real\<bar>\<rfloor> = int 1024"
    by (rule floor_log2_bounds) simp_all
  then show ?thesis
    by (simp add: round_double_def scale2_def round_half_even_def Let_def)
qed

section \<open>The demographic aggregation\<close>

lemma ageGroupData_demo_forEach:
  "ageGroupData (demo_forEach c d m)
     = (if age_group d \<in> set Object_prototype_names
           \<and> map_of (ageGroupData m) (age_group d) = None
        then ageGroupData m
        else upsert (\<lambda>cd. age_group (snd cd)) age_init age_add (c, d) (ageGroupData m))"
  by (simp add: demo_forEach_def upsert_def Let_def age_init_def age_add_def
        spend_share_def revenue_share_def update_conv' split: option.splits)

lemma maleData_demo_forEach:
  "maleData (demo_forEach c d m)
     = (if gender d = ''Male'' then gender_add (c, d) (maleData m) else maleData m)"
  by (simp add: demo_forEach_def Let_def gender_add_def spend_share_def revenue_share_def
        split: option.splits)

lemma femaleData_demo_forEach:
  "femaleData (demo_forEach c d m)
     = (if gender d = ''Female'' then gender_add (c, d) (femaleData m) else femaleData m)"
  by (simp add: demo_forEach_def Let_def gender_add_def spend_share_def revenue_share_def
        split: option.splits)

lemma ageGroupData_fold:
  assumes "fst ` set (ageGroupData m) \<inter> set Object_prototype_names = {}"
  shows "ageGroupData (fold (\<lambda>cd. demo_forEach (fst cd) (snd cd)) cds m)
     = fold (upsert (\<lambda>cd. age_group (snd cd)) age_init age_add)
         (filter (\<lambda>cd. age_group (snd cd) \<notin> set Object_prototype_names) cds)
         (ageGroupData m)"
  using assms
proof (induction cds arbitrary: m)
  case Nil
  show ?case by simp
next
  case (Cons cd cds)
  let ?m' = "demo_forEach (fst cd) (snd cd) m"
  show ?case
  proof (cases "age_group (snd cd) \<in> set Object_prototype_names")
    case True
    with Cons.prems have "age_group (snd cd) \<notin> fst ` set (ageGroupData m)" by blast
    then have "map_of (ageGroupData m) (age_group (snd cd)) = None"
      by (simp add: map_of_eq_None_iff)
    with True have same: "ageGroupData ?m' = ageGroupData m"
      by (simp add: ageGroupData_demo_forEach)
    with Cons.prems have "fst ` set (ageGroupData ?m') \<inter> set Object_prototype_names = {}"
      by simp
    from Cons.IH[OF this] show ?thesis using True by (simp add: same)
  next
    case False
    then have up: "ageGroupData ?m'
        = upsert (\<lambda>cd. age_group (snd cd)) age_init age_add cd (ageGroupData m)"
      by (simp add: ageGroupData_demo_forEach)
    have "fst ` set (ageGroupData ?m') \<inter> set Object_prototype_names = {}"
      unfolding up keys_upsert using False Cons.prems by simp
    from Cons.IH[OF this] show ?thesis using False by (simp add: up)
  qed
qed

lemma maleData_fold:
  "maleData (fold (\<lambda>cd. demo_forEach (fst cd) (snd cd)) cds m)
     = fold gender_add (filter (\<lambda>cd. gender (snd cd) = ''Male'') cds) (maleData m)"
  by (induction cds arbitrary: m) (simp_all add: maleData_demo_forEach)

lemma femaleData_fold:
  "femaleData (fold (\<lambda>cd. demo_forEach (fst cd) (snd cd)) cds m)
     = fold gender_add (filter (\<lambda>cd. gender (snd cd) = ''Female'') cds) (femaleData m)"
  by (induction cds arbitrary: m) (simp_all add: femaleData_demo_forEach)

lemma fold_demo_pairs:
  "fold (demo_forEach c) ds m = fold (\<lambda>cd. demo_forEach (fst cd) (snd cd)) (map (Pair c) ds) m"
  by (induction ds arbitrary: m) simp_all

lemma demo_campaigns_forEach_Inr:
  "demo_campaigns_forEach cs m = Inr m' \<Longrightarrow>
     m' = fold (\<lambda>cd. demo_forEach (fst cd) (snd cd))
            (concat (map (\<lambda>c. case demographic_breakdown c of
                                 None \<Rightarrow> [] | Some ds \<Rightarrow> map (Pair c) ds) cs)) m"
  by (induction cs arbitrary: m) (auto simp: fold_demo_pairs split: option.splits)


lemma calculateMetrics_Some:
  assumes "calculateMetrics data = Inr (Some m)"
  shows "m = fold (\<lambda>cd. demo_forEach (fst cd) (snd cd)) (demographic_records data) empty_metrics"
  using assms
  by (auto simp: calculateMetrics_def demographic_records_def empty_metrics_def
        split: option.splits sum.splits dest: demo_campaigns_forEach_Inr)




lemma fold_gender_add_clicks:
  "GenderStats.clicks (fold gender_add cds g)
     = GenderStats.clicks g + sum_list (map (\<lambda>cd. Performance.clicks (performance (snd cd))) cds)"
  by (rule fold_field_sum) (simp add: gender_add_def)

lemma calculateMetrics_gender_clicks:
  assumes "calculateMetrics data = Inr (Some m)"
  shows "GenderStats.clicks (maleData m)
           = sum_list (map (\<lambda>cd. Performance.clicks (performance (snd cd)))
               (filter (\<lambda>cd. gender (snd cd) = ''Male'') (demographic_records data)))"
    and "GenderStats.clicks (femaleData m)
           = sum_list (map (\<lambda>cd. Performance.clicks (performance (snd cd)))
               (filter (\<lambda>cd. gender (snd cd) = ''Female'') (demographic_records data)))"
  unfolding calculateMetrics_Some[OF assms]
  by (simp_all add: maleData_fold femaleData_fold fold_gender_add_clicks empty_metrics_def)

lemma ageGroupData_calculateMetrics:
  assumes "calculateMetrics data = Inr (Some m)"
  shows "ageGroupData m
     = fold (upsert (\<lambda>cd. age_group (snd cd)) age_init age_add)
         (filter (\<lambda>cd. age_group (snd cd) \<notin> set Object_prototype_names)
            (demographic_records data)) []"
  unfolding calculateMetrics_Some[OF assms]
  by (simp add: ageGroupData_fold empty_metrics_def)

lemma calculateMetrics_age_keys:
  assumes cm: "calculateMetrics data = Inr (Some m)"
  shows "set (map fst (ageGroupData m))
           = (\<lambda>cd. age_group (snd cd)) ` set (demographic_records data)
             - set Object_prototype_names"
    and "distinct (map fst (ageGroupData m))"
proof -
  note a = ageGroupData_calculateMetrics[OF cm]
  have "set (map fst (ageGroupData m))
          = (\<lambda>cd. age_group (snd cd)) `
              set (filter (\<lambda>cd. age_group (snd cd) \<notin> set Object_prototype_names)
                     (demographic_records data))"
    unfolding a
    using keys_fold_upsert[of "\<lambda>cd. age_group (snd cd)" age_init age_add
            "filter (\<lambda>cd. age_group (snd cd) \<notin> set Object_prototype_names)
               (demographic_records data)" "[]"]
    by simp
  also have "\<dots> = (\<lambda>cd. age_group (snd cd)) ` set (demographic_records data)
                    - set Object_prototype_names"
    by auto
  finally show "set (map fst (ageGroupData m))
           = (\<lambda>cd. age_group (snd cd)) ` set (demographic_records data)
             - set Object_prototype_names" .
  show "distinct (map fst (ageGroupData m))"
    unfolding a by (rule distinct_fold_upsert) simp
qed



lemma example_two_genders_metrics:
  "calculateMetrics example_two_genders =
     Inr (Some \<lparr>maleData = \<lparr>GenderStats.clicks = 7, GenderStats.spend = 250,
                             GenderStats.revenue = 500\<rparr>,
                femaleData = \<lparr>GenderStats.clicks = 0, GenderStats.spend = 0,
                               GenderStats.revenue = 0\<rparr>,
                ageGroupData = [(''18-24'', \<lparr>AgeStats.spend = 1000, AgeStats.revenue = 2000\<rparr>)]\<rparr>)"
  by (simp add: calculateMetrics_def example_two_genders_def demo_forEach_def Let_def
        Object_prototype_names_def)


lemma example_inherited_name_metrics:
  "calculateMetrics example_inherited_name =
     Inr (Some \<lparr>maleData = \<lparr>GenderStats.clicks = 7, GenderStats.spend = 250,
                             GenderStats.revenue = 500\<rparr>,
                femaleData = \<lparr>GenderStats.clicks = 9, GenderStats.spend = 750,
                               GenderStats.revenue = 1500\<rparr>,
                ageGroupData = [(''18-24'', \<lparr>AgeStats.spend = 250, AgeStats.revenue = 500\<rparr>)]\<rparr>)"
  by (simp add: calculateMetrics_def example_inherited_name_def demo_forEach_def Let_def
        Object_prototype_names_def)

section \<open>The example documents, evaluated\<close>

lemma example_regional_rows:
  "aggregatedRegionalData example_regional =
     [\<lparr>impressions = 400, clicks = 40, conversions = 4, spend = 60, revenue = 570,
       RegionalStats.country = ''UAE'', RegionalRow.region = ''Dubai''\<rparr>,
      \<lparr>impressions = 200, clicks = 20, conversions = 2, spend = 40, revenue = 50,
       RegionalStats.country = ''Japan'', RegionalRow.region = ''Tokyo''\<rparr>]"
  by (simp add: aggregatedRegionalData_def example_regional_def regional_campaign_forEach_def
        regional_forEach_def Map_has_def Map_get_def Map_set_def Map_entries_def
        regional_row_def Let_def)

lemma example_regional_records:
  "regional_records example_regional =
     [\<lparr>impressions = 100, clicks = 10, conversions = 1, spend = 0, revenue = 500,
       RegionalData.region = ''Dubai'', RegionalData.country = ''UAE''\<rparr>,
      \<lparr>impressions = 200, clicks = 20, conversions = 2, spend = 40, revenue = 50,
       RegionalData.region = ''Tokyo'', RegionalData.country = ''Japan''\<rparr>,
      \<lparr>impressions = 300, clicks = 30, conversions = 3, spend = 60, revenue = 70,
       RegionalData.region = ''Dubai'', RegionalData.country = ''Oman''\<rparr>]"
  by (simp add: regional_records_def example_regional_def)

lemma example_device_rows:
  "aggregatedDeviceData example_device =
     [\<lparr>impressions = 400, clicks = 40, conversions = 4, spend = 60, revenue = 570,
       traffic = 160, DeviceRow.device = ''Mobile''\<rparr>,
      \<lparr>impressions = 200, clicks = 20, conversions = 2, spend = 40, revenue = 50,
       traffic = 40, DeviceRow.device = ''Desktop''\<rparr>]"
  by (simp add: aggregatedDeviceData_def example_device_def device_campaign_forEach_def
        device_forEach_def Map_has_def Map_get_def Map_set_def Map_entries_def
        device_row_def Let_def)

lemma example_device_records:
  "device_records example_device =
     [\<lparr>impressions = 100, clicks = 10, conversions = 1, spend = 0, revenue = 500,
       DeviceData.device = ''Mobile'', DeviceData.ctr = 10, percentage_of_traffic = 60\<rparr>,
      \<lparr>impressions = 200, clicks = 20, conversions = 2, spend = 40, revenue = 50,
       DeviceData.device = ''Desktop'', DeviceData.ctr = 10, percentage_of_traffic = 40\<rparr>,
      \<lparr>impressions = 300, clicks = 30, conversions = 3, spend = 60, revenue = 70,
       DeviceData.device = ''Mobile'', DeviceData.ctr = 10, percentage_of_traffic = 100\<rparr>]"
  by (simp add: device_records_def example_device_def)

lemma example_weekly_rows:
  "aggregatedWeeklyData example_getTime example_weekly =
     [\<lparr>impressions = 200, clicks = 20, conversions = 2, spend = 40, revenue = 50,
       weekStart = ''2024-01-01'', weekEnd = ''2024-01-07''\<rparr>,
      \<lparr>impressions = 400, clicks = 40, conversions = 4, spend = 80, revenue = 570,
       weekStart = ''2024-01-08'', weekEnd = ''2024-01-14''\<rparr>]"
  by (simp add: aggregatedWeeklyData_def example_weekly_def weekly_campaign_forEach_def
        weekly_forEach_def Map_has_def Map_get_def Map_set_def Map_values_def
        example_getTime_def Let_def)

lemma example_weekly_records:
  "weekly_records example_weekly =
     [\<lparr>impressions = 100, clicks = 10, conversions = 1, spend = 20, revenue = 500,
       week_start = ''2024-01-08'', week_end = ''2024-01-14''\<rparr>,
      \<lparr>impressions = 200, clicks = 20, conversions = 2, spend = 40, revenue = 50,
       week_start = ''2024-01-01'', week_end = ''2024-01-07''\<rparr>,
      \<lparr>impressions = 300, clicks = 30, conversions = 3, spend = 60, revenue = 70,
       week_start = ''2024-01-08'', week_end = ''2024-01-15''\<rparr>]"
  by (simp add: weekly_records_def example_weekly_def)

lemma round_double_zero: "round_double 0 = Fin 0"
  by (simp add: round_double_def)

lemma round_double_one: "round_double 1 = Fin 1"
  using round_double_int[of 1] by simp

lemma round_double_numeral:
  "\<bar>numeral w :: int\<bar> \<le> 2 ^ 53 \<Longrightarrow> round_double (numeral w) = Fin (numeral w)"
  using round_double_int[of "numeral w"] by simp

lemma round_double_2_53_1: "round_double 9007199254740993 = Fin 9007199254740992"
  using js_add_2_53 by simp

lemma double_regional_rows:
  "aggregatedRegionalData double_regional =
     [\<lparr>impressions = Fin 400, clicks = Fin 40, conversions = Fin 4, spend = Fin 60,
       revenue = Fin 570,
       RegionalStats.country = ''UAE'', RegionalRow.region = ''Dubai''\<rparr>,
      \<lparr>impressions = Fin 200, clicks = Fin 20, conversions = Fin 2, spend = Fin 40,
       revenue = Fin 50,
       RegionalStats.country = ''Japan'', RegionalRow.region = ''Tokyo''\<rparr>]"
  by (simp add: aggregatedRegionalData_def double_regional_def regional_campaign_forEach_def
        regional_forEach_def Map_has_def Map_get_def Map_set_def Map_entries_def
        regional_row_def Let_def zero_jsnum_def plus_jsnum_def round_double_zero
        round_double_one round_double_numeral)

lemma double_device_rows:
  "aggregatedDeviceData double_device =
     [\<lparr>impressions = Fin 400, clicks = Fin 40, conversions = Fin 4, spend = Fin 60,
       revenue = Fin 570, traffic = Fin 160, DeviceRow.device = ''Mobile''\<rparr>,
      \<lparr>impressions = Fin 200, clicks = Fin 20, conversions = Fin 2, spend = Fin 40,
       revenue = Fin 50, traffic = Fin 40, DeviceRow.device = ''Desktop''\<rparr>]"
  by (simp add: aggregatedDeviceData_def double_device_def device_campaign_forEach_def
        device_forEach_def Map_has_def Map_get_def Map_set_def Map_entries_def
        device_row_def Let_def zero_jsnum_def plus_jsnum_def round_double_zero
        round_double_one round_double_numeral)

lemma double_weekly_rows:
  "aggregatedWeeklyData example_getTime double_weekly =
     [\<lparr>impressions = Fin 200, clicks = Fin 20, conversions = Fin 2, spend = Fin 40,
       revenue = Fin 50, weekStart = ''2024-01-01'', weekEnd = ''2024-01-07''\<rparr>,
      \<lparr>impressions = Fin 400, clicks = Fin 40, conversions = Fin 4, spend = Fin 80,
       revenue = Fin 570, weekStart = ''2024-01-08'', weekEnd = ''2024-01-14''\<rparr>]"
  by (simp add: aggregatedWeeklyData_def double_weekly_def weekly_campaign_forEach_def
        weekly_forEach_def Map_has_def Map_get_def Map_set_def Map_values_def
        example_getTime_def Let_def zero_jsnum_def plus_jsnum_def round_double_zero
        round_double_one round_double_numeral)

lemma rounded_regional_rows:
  "aggregatedRegionalData rounded_regional =
     [\<lparr>impressions = Fin 400, clicks = Fin 40, conversions = Fin 4, spend = Fin 80,
       revenue = Fin 9007199254740992,
       RegionalStats.country = ''UAE'', RegionalRow.region = ''Dubai''\<rparr>]"
  by (simp add: aggregatedRegionalData_def rounded_regional_def regional_campaign_forEach_def
        regional_forEach_def Map_has_def Map_get_def Map_set_def Map_entries_def
        regional_row_def Let_def zero_jsnum_def plus_jsnum_def round_double_zero
        round_double_one round_double_numeral round_double_2_53_1)

section \<open>Sum correctness\<close>

text \<open>
  In the document \<open>rounded_regional\<close> the two records of Dubai have the revenues
  \<open>2 ^ 53\<close> and 1. The row of Dubai has the revenue \<open>2 ^ 53\<close>: the exact sum is not
  a double, and the addition rounds it.
\<close>

theorem rounded_sum_counterexample:
  "map revenue (aggregatedRegionalData rounded_regional) = [Fin 9007199254740992]
   \<and> map revenue
       (filter (\<lambda>r. RegionalData.region r = ''Dubai'') (regional_records rounded_regional))
     = [Fin 9007199254740992, Fin 1]
   \<and> map revenue (aggregatedRegionalData rounded_regional)
     \<noteq> [Fin (sum_list [9007199254740992, 1])]"
  by (simp add: rounded_regional_rows) (simp add: regional_records_def rounded_regional_def)

text \<open>
  C1, as the code has it. For every document and each of the device, weekly and regional
  aggregations, whatever the numbers and their addition are, each of the impressions,
  clicks, conversions, spend and revenue of every output row is what adding that field
  of the records with the row's key to 0 gives, record after record in the order of the
  document: all records of all campaigns with that key enter, and each enters once. The
  keys of the rows are distinct, so a record enters one row only. With the numbers as
  doubles, such a total is the exact sum whenever the values are integers and no running
  sum exceeds \<open>2 ^ 53\<close> in magnitude.
\<close>

theorem sum_correctness:
  "(\<forall>row \<in> set (aggregatedDeviceData ddata).
      accumulates row
        (filter (\<lambda>r. DeviceData.device r = DeviceRow.device row) (device_records ddata)))
   \<and> distinct (map DeviceRow.device (aggregatedDeviceData ddata))
   \<and> (\<forall>row \<in> set (aggregatedWeeklyData getTime wdata).
      accumulates row (filter (\<lambda>r. week_start r = weekStart row) (weekly_records wdata)))
   \<and> distinct (map weekStart (aggregatedWeeklyData getTime wdata))
   \<and> (\<forall>row \<in> set (aggregatedRegionalData rdata).
      accumulates row
        (filter (\<lambda>r. RegionalData.region r = RegionalRow.region row) (regional_records rdata)))
   \<and> distinct (map RegionalRow.region (aggregatedRegionalData rdata))
   \<and> (\<forall>row \<in> set (aggregatedDeviceData jdevice).
      exact_totals row
        (filter (\<lambda>r. DeviceData.device r = DeviceRow.device row) (device_records jdevice)))
   \<and> (\<forall>row \<in> set (aggregatedWeeklyData getTime jweekly).
      exact_totals row (filter (\<lambda>r. week_start r = weekStart row) (weekly_records jweekly)))
   \<and> (\<forall>row \<in> set (aggregatedRegionalData jregional).
      exact_totals row
        (filter (\<lambda>r. RegionalData.region r = RegionalRow.region row)
           (regional_records jregional)))"
proof (intro conjI ballI)
  show "distinct (map DeviceRow.device (aggregatedDeviceData ddata))" by (rule device_keys(2))
  show "distinct (map weekStart (aggregatedWeeklyData getTime wdata))" by (rule weekly_keys(2))
  show "distinct (map RegionalRow.region (aggregatedRegionalData rdata))"
    by (rule regional_keys(2))
next
  fix row assume "row \<in> set (aggregatedDeviceData ddata)"
  then show "accumulates row
        (filter (\<lambda>r. DeviceData.device r = DeviceRow.device row) (device_records ddata))"
    by (rule device_rows_sum)
next
  fix row assume "row \<in> set (aggregatedWeeklyData getTime wdata)"
  then show "accumulates row
        (filter (\<lambda>r. week_start r = weekStart row) (weekly_records wdata))"
    by (rule weekly_rows_sum)
next
  fix row assume "row \<in> set (aggregatedRegionalData rdata)"
  then show "accumulates row
        (filter (\<lambda>r. RegionalData.region r = RegionalRow.region row) (regional_records rdata))"
    by (rule regional_rows_sum)
next
  fix row assume "row \<in> set (aggregatedDeviceData jdevice)"
  then show "exact_totals row
        (filter (\<lambda>r. DeviceData.device r = DeviceRow.device row) (device_records jdevice))"
    by (rule accumulates_exact[OF device_rows_sum])
next
  fix row assume "row \<in> set (aggregatedWeeklyData getTime jweekly)"
  then show "exact_totals row
        (filter (\<lambda>r. week_start r = weekStart row) (weekly_records jweekly))"
    by (rule accumulates_exact[OF weekly_rows_sum])
next
  fix row assume "row \<in> set (aggregatedRegionalData jregional)"
  then show "exact_totals row
        (filter (\<lambda>r. RegionalData.region r = RegionalRow.region row)
           (regional_records jregional))"
    by (rule accumulates_exact[OF regional_rows_sum])
qed

text \<open>
  The rows of Mobile, of the week of January 8 and of Dubai in the example documents
  with doubles: each total is the sum of two records of two campaigns.
\<close>

theorem sum_correctness_witness:
  "\<lparr>impressions = Fin 400, clicks = Fin 40, conversions = Fin 4, spend = Fin 60,
     revenue = Fin 570, traffic = Fin 160, DeviceRow.device = ''Mobile''\<rparr>
     \<in> set (aggregatedDeviceData double_device)
   \<and> accumulates
        \<lparr>impressions = Fin 400, clicks = Fin 40, conversions = Fin 4, spend = Fin 60,
         revenue = Fin 570, traffic = Fin 160, DeviceRow.device = ''Mobile''\<rparr>
        (filter (\<lambda>r. DeviceData.device r = ''Mobile'') (device_records double_device))
   \<and> exact_totals
        \<lparr>impressions = Fin 400, clicks = Fin 40, conversions = Fin 4, spend = Fin 60,
         revenue = Fin 570, traffic = Fin 160, DeviceRow.device = ''Mobile''\<rparr>
        (filter (\<lambda>r. DeviceData.device r = ''Mobile'') (device_records double_device))
   \<and> map revenue (filter (\<lambda>r. DeviceData.device r = ''Mobile'') (device_records double_device))
       = [Fin 500, Fin 70]
   \<and> \<lparr>impressions = Fin 400, clicks = Fin 40, conversions = Fin 4, spend = Fin 80,
       revenue = Fin 570, weekStart = ''2024-01-08'', weekEnd = ''2024-01-14''\<rparr>
       \<in> set (aggregatedWeeklyData example_getTime double_weekly)
   \<and> accumulates
        \<lparr>impressions = Fin 400, clicks = Fin 40, conversions = Fin 4, spend = Fin 80,
         revenue = Fin 570, weekStart = ''2024-01-08'', weekEnd = ''2024-01-14''\<rparr>
        (filter (\<lambda>r. week_start r = ''2024-01-08'') (weekly_records double_weekly))
   \<and> exact_totals
        \<lparr>impressions = Fin 400, clicks = Fin 40, conversions = Fin 4, spend = Fin 80,
         revenue = Fin 570, weekStart = ''2024-01-08'', weekEnd = ''2024-01-14''\<rparr>
        (filter (\<lambda>r. week_start r = ''2024-01-08'') (weekly_records double_weekly))
   \<and> \<lparr>impressions = Fin 400, clicks = Fin 40, conversions = Fin 4, spend = Fin 60,
       revenue = Fin 570, RegionalStats.country = ''UAE'', RegionalRow.region = ''Dubai''\<rparr>
       \<in> set (aggregatedRegionalData double_regional)
   \<and> accumulates
        \<lparr>impressions = Fin 400, clicks = Fin 40, conversions = Fin 4, spend = Fin 60,
         revenue = Fin 570, RegionalStats.country = ''UAE'', RegionalRow.region = ''Dubai''\<rparr>
        (filter (\<lambda>r. RegionalData.region r = ''Dubai'') (regional_records double_regional))
   \<and> exact_totals
        \<lparr>impressions = Fin 400, clicks = Fin 40, conversions = Fin 4, spend = Fin 60,
         revenue = Fin 570, RegionalStats.country = ''UAE'', RegionalRow.region = ''Dubai''\<rparr>
        (filter (\<lambda>r. RegionalData.region r = ''Dubai'') (regional_records double_regional))"
proof -
  note sc = sum_correctness[of double_device example_getTime double_weekly double_regional
              double_device double_weekly double_regional]
  have d: "\<lparr>impressions = Fin 400, clicks = Fin 40, conversions = Fin 4, spend = Fin 60,
     revenue = Fin 570, traffic = Fin 160, DeviceRow.device = ''Mobile''\<rparr>
     \<in> set (aggregatedDeviceData double_device)"
    by (simp add: double_device_rows)
  have w: "\<lparr>impressions = Fin 400, clicks = Fin 40, conversions = Fin 4, spend = Fin 80,
       revenue = Fin 570, weekStart = ''2024-01-08'', weekEnd = ''2024-01-14''\<rparr>
       \<in> set (aggregatedWeeklyData example_getTime double_weekly)"
    by (simp add: double_weekly_rows)
  have r: "\<lparr>impressions = Fin 400, clicks = Fin 40, conversions = Fin 4, spend = Fin 60,
       revenue = Fin 570, RegionalStats.country = ''UAE'', RegionalRow.region = ''Dubai''\<rparr>
       \<in> set (aggregatedRegionalData double_regional)"
    by (simp add: double_regional_rows)
  have ad: "accumulates
        \<lparr>impressions = Fin 400, clicks = Fin 40, conversions = Fin 4, spend = Fin 60,
         revenue = Fin 570, traffic = Fin 160, DeviceRow.device = ''Mobile''\<rparr>
        (filter (\<lambda>r. DeviceData.device r = ''Mobile'') (device_records double_device))"
    using bspec[OF sc[THEN conjunct1] d] by simp
  have aw: "accumulates
        \<lparr>impressions = Fin 400, clicks = Fin 40, conversions = Fin 4, spend = Fin 80,
         revenue = Fin 570, weekStart = ''2024-01-08'', weekEnd = ''2024-01-14''\<rparr>
        (filter (\<lambda>r. week_start r = ''2024-01-08'') (weekly_records double_weekly))"
    using bspec[OF sc[THEN conjunct2, THEN conjunct2, THEN conjunct1] w] by simp
  have ar: "accumulates
        \<lparr>impressions = Fin 400, clicks = Fin 40, conversions = Fin 4, spend = Fin 60,
         revenue = Fin 570, RegionalStats.country = ''UAE'', RegionalRow.region = ''Dubai''\<rparr>
        (filter (\<lambda>r. RegionalData.region r = ''Dubai'') (regional_records double_regional))"
    using bspec[OF sc[THEN conjunct2, THEN conjunct2, THEN conjunct2, THEN conjunct2,
                      THEN conjunct1] r] by simp
  note ex = sc[THEN conjunct2, THEN conjunct2, THEN conjunct2, THEN conjunct2,
               THEN conjunct2, THEN conjunct2]
  have ed: "exact_totals
        \<lparr>impressions = Fin 400, clicks = Fin 40, conversions = Fin 4, spend = Fin 60,
         revenue = Fin 570, traffic = Fin 160, DeviceRow.device = ''Mobile''\<rparr>
        (filter (\<lambda>r. DeviceData.device r = ''Mobile'') (device_records double_device))"
    using bspec[OF ex[THEN conjunct1] d] by simp
  have ew: "exact_totals
        \<lparr>impressions = Fin 400, clicks = Fin 40, conversions = Fin 4, spend = Fin 80,
         revenue = Fin 570, weekStart = ''2024-01-08'', weekEnd = ''2024-01-14''\<rparr>
        (filter (\<lambda>r. week_start r = ''2024-01-08'') (weekly_records double_weekly))"
    using bspec[OF ex[THEN conjunct2, THEN conjunct1] w] by simp
  have er: "exact_totals
        \<lparr>impressions = Fin 400, clicks = Fin 40, conversions = Fin 4, spend = Fin 60,
         revenue = Fin 570, RegionalStats.country = ''UAE'', RegionalRow.region = ''Dubai''\<rparr>
        (filter (\<lambda>r. RegionalData.region r = ''Dubai'') (regional_records double_regional))"
    using bspec[OF ex[THEN conjunct2, THEN conjunct2] r] by simp
  have rv: "map revenue
              (filter (\<lambda>r. DeviceData.device r = ''Mobile'') (device_records double_device))
            = [Fin 500, Fin 70]"
    by (simp add: device_records_def double_device_def)
  from d ad ed rv w aw ew r ar er show ?thesis by (intro conjI)
qed

section \<open>Aggregation completeness\<close>

text \<open>
  C2, as the code has it. The device, weekly and regional aggregations return one row
  for each distinct dimension value of the document and no other row. The demographic
  aggregation has no bucket for an (age group, gender) pair. When it returns its
  metrics, it has one age bucket for each distinct age group of the document, whatever
  the gender, and no other age bucket; this is said of the age groups other than the
  names that an empty object inherits. The gender is the key of no bucket: the clicks of
  the records of gender Male and of gender Female are summed in the two fixed buckets
  \<open>maleData\<close> and \<open>femaleData\<close>.
\<close>

theorem aggregation_completeness:
  "set (map DeviceRow.device (aggregatedDeviceData ddata))
     = DeviceData.device ` set (device_records ddata)
   \<and> distinct (map DeviceRow.device (aggregatedDeviceData ddata))
   \<and> set (map weekStart (aggregatedWeeklyData getTime wdata))
     = week_start ` set (weekly_records wdata)
   \<and> distinct (map weekStart (aggregatedWeeklyData getTime wdata))
   \<and> set (map RegionalRow.region (aggregatedRegionalData rdata))
     = RegionalData.region ` set (regional_records rdata)
   \<and> distinct (map RegionalRow.region (aggregatedRegionalData rdata))
   \<and> (calculateMetrics gdata = Inr (Some m) \<longrightarrow>
        set (map fst (ageGroupData m)) - set Object_prototype_names
          = (\<lambda>cd. age_group (snd cd)) ` set (demographic_records gdata)
            - set Object_prototype_names
        \<and> distinct (map fst (ageGroupData m))
        \<and> GenderStats.clicks (maleData m)
            = sum_list (map (\<lambda>cd. Performance.clicks (performance (snd cd)))
                (filter (\<lambda>cd. gender (snd cd) = ''Male'') (demographic_records gdata)))
        \<and> GenderStats.clicks (femaleData m)
            = sum_list (map (\<lambda>cd. Performance.clicks (performance (snd cd)))
                (filter (\<lambda>cd. gender (snd cd) = ''Female'') (demographic_records gdata))))"
proof (intro conjI impI)
  assume cm: "calculateMetrics gdata = Inr (Some m)"
  show "set (map fst (ageGroupData m)) - set Object_prototype_names
          = (\<lambda>cd. age_group (snd cd)) ` set (demographic_records gdata)
            - set Object_prototype_names"
    unfolding calculateMetrics_age_keys(1)[OF cm] by blast
  show "distinct (map fst (ageGroupData m))" by (rule calculateMetrics_age_keys(2)[OF cm])
  show "GenderStats.clicks (maleData m)
            = sum_list (map (\<lambda>cd. Performance.clicks (performance (snd cd)))
                (filter (\<lambda>cd. gender (snd cd) = ''Male'') (demographic_records gdata)))"
    by (rule calculateMetrics_gender_clicks(1)[OF cm])
  show "GenderStats.clicks (femaleData m)
            = sum_list (map (\<lambda>cd. Performance.clicks (performance (snd cd)))
                (filter (\<lambda>cd. gender (snd cd) = ''Female'') (demographic_records gdata)))"
    by (rule calculateMetrics_gender_clicks(2)[OF cm])
qed (rule device_keys weekly_keys regional_keys)+

text \<open>
  In the example one record has the age group 18-24 and the other the age group
  \<open>constructor\<close>, a name that an empty object inherits.
\<close>

theorem aggregation_completeness_witness:
  "calculateMetrics example_inherited_name
     = Inr (Some \<lparr>maleData = \<lparr>GenderStats.clicks = 7, GenderStats.spend = 250,
                               GenderStats.revenue = 500\<rparr>,
                  femaleData = \<lparr>GenderStats.clicks = 9, GenderStats.spend = 750,
                                 GenderStats.revenue = 1500\<rparr>,
                  ageGroupData =
                    [(''18-24'', \<lparr>AgeStats.spend = 250, AgeStats.revenue = 500\<rparr>)]\<rparr>)
   \<and> {''18-24''}
       = (\<lambda>cd. age_group (snd cd)) ` set (demographic_records example_inherited_name)
         - set Object_prototype_names
   \<and> map (\<lambda>cd. age_group (snd cd)) (demographic_records example_inherited_name)
       = [''18-24'', ''constructor'']
   \<and> sum_list (map (\<lambda>cd. Performance.clicks (performance (snd cd)))
         (filter (\<lambda>cd. gender (snd cd) = ''Female'')
            (demographic_records example_inherited_name)))
       = 9
   \<and> set (map RegionalRow.region (aggregatedRegionalData example_regional))
       = RegionalData.region ` set (regional_records example_regional)"
proof -
  note ac = aggregation_completeness[of example_device example_getTime example_weekly
          example_regional example_inherited_name
          "\<lparr>maleData = \<lparr>GenderStats.clicks = 7, GenderStats.spend = 250,
                               GenderStats.revenue = 500\<rparr>,
                  femaleData = \<lparr>GenderStats.clicks = 9, GenderStats.spend = 750,
                                 GenderStats.revenue = 1500\<rparr>,
                  ageGroupData =
                    [(''18-24'', \<lparr>AgeStats.spend = 250, AgeStats.revenue = 500\<rparr>)]\<rparr>"]
  have ages: "map (\<lambda>cd. age_group (snd cd)) (demographic_records example_inherited_name)
       = [''18-24'', ''constructor'']"
    by (simp add: demographic_records_def example_inherited_name_def)
  from ac example_inherited_name_metrics ages show ?thesis
    by (simp add: Object_prototype_names_def)
qed

text \<open>
  Two records of the age group 18-24, one male and one of another gender, are two
  distinct (age group, gender) pairs. The output has the one age bucket \<open>18-24\<close> and
  the two fixed gender buckets: no bucket belongs to the second pair, and the female
  bucket is there without a female record.
\<close>

theorem demographic_pair_keys_counterexample:
  "calculateMetrics example_two_genders
     = Inr (Some \<lparr>maleData = \<lparr>GenderStats.clicks = 7, GenderStats.spend = 250,
                               GenderStats.revenue = 500\<rparr>,
                  femaleData = \<lparr>GenderStats.clicks = 0, GenderStats.spend = 0,
                                 GenderStats.revenue = 0\<rparr>,
                  ageGroupData =
                    [(''18-24'', \<lparr>AgeStats.spend = 1000, AgeStats.revenue = 2000\<rparr>)]\<rparr>)
   \<and> map (\<lambda>cd. (age_group (snd cd), gender (snd cd))) (demographic_records example_two_genders)
       = [(''18-24'', ''Male''), (''18-24'', ''Other'')]"
  by (simp add: example_two_genders_metrics)
     (simp add: demographic_records_def example_two_genders_def)

section \<open>The demographic ratio split\<close>



section \<open>Totality of the aggregation\<close>

text \<open>
  C4 fails for the demographic aggregation: \<open>calculateMetrics\<close> calls
  \<open>forEach\<close> on \<open>campaign.demographic_breakdown\<close> without the check that the device,
  weekly and regional aggregations make, so a campaign without the list is not skipped:
  the call throws.
\<close>

theorem calculateMetrics_throws_without_breakdown:
  "calculateMetrics
     (Some \<lparr>campaigns = Some
        [\<lparr>demographic_breakdown = None,
          DemographicCampaign.spend = 1000, DemographicCampaign.revenue = 2000\<rparr>]\<rparr>)
   = Inl TypeError
   \<and> aggregatedDeviceData
       (Some \<lparr>campaigns = Some [\<lparr>campaign_name = ''Summer'', device_performance = None\<rparr>]\<rparr>)
     = []"
  by (simp add: calculateMetrics_def aggregatedDeviceData_def device_campaign_forEach_def
        Map_entries_def)

section \<open>First write wins\<close>

text \<open>
  C8. The country of a regional row is the country of the first record of the document
  with the row's region, and the week end of a weekly row is the week end of the first
  record with the row's week start; later records with the same key do not change it.
\<close>

theorem first_write_wins:
  "(\<forall>row \<in> set (aggregatedRegionalData rdata).
      map_option RegionalData.country
        (find (\<lambda>r. RegionalData.region r = RegionalRow.region row) (regional_records rdata))
      = Some (RegionalStats.country row))
   \<and> (\<forall>row \<in> set (aggregatedWeeklyData getTime wdata).
      map_option week_end
        (find (\<lambda>r. week_start r = weekStart row) (weekly_records wdata))
      = Some (weekEnd row))"
  by (intro conjI ballI regional_first_country weekly_first_week_end)

text \<open>
  In the examples the second record of Dubai names another country and the second record
  of the week of January 8 another week end; the rows keep the first.
\<close>

theorem first_write_wins_witness:
  "\<lparr>impressions = 400, clicks = 40, conversions = 4, spend = 60, revenue = 570,
     RegionalStats.country = ''UAE'', RegionalRow.region = ''Dubai''\<rparr>
     \<in> set (aggregatedRegionalData example_regional)
   \<and> map RegionalData.country
       (filter (\<lambda>r. RegionalData.region r = ''Dubai'') (regional_records example_regional))
     = [''UAE'', ''Oman'']
   \<and> map_option RegionalData.country
       (find (\<lambda>r. RegionalData.region r = ''Dubai'') (regional_records example_regional))
     = Some ''UAE''
   \<and> \<lparr>impressions = 400, clicks = 40, conversions = 4, spend = 80, revenue = 570,
       weekStart = ''2024-01-08'', weekEnd = ''2024-01-14''\<rparr>
       \<in> set (aggregatedWeeklyData example_getTime example_weekly)
   \<and> map week_end
       (filter (\<lambda>r. week_start r = ''2024-01-08'') (weekly_records example_weekly))
     = [''2024-01-14'', ''2024-01-15'']
   \<and> map_option week_end
       (find (\<lambda>r. week_start r = ''2024-01-08'') (weekly_records example_weekly))
     = Some ''2024-01-14''"
proof -
  note fw = first_write_wins[of example_regional example_getTime example_weekly]
  have r: "\<lparr>impressions = 400, clicks = 40, conversions = 4, spend = 60, revenue = 570,
       RegionalStats.country = ''UAE'', RegionalRow.region = ''Dubai''\<rparr>
       \<in> set (aggregatedRegionalData example_regional)"
    by (simp add: example_regional_rows)
  have w: "\<lparr>impressions = 400, clicks = 40, conversions = 4, spend = 80, revenue = 570,
       weekStart = ''2024-01-08'', weekEnd = ''2024-01-14''\<rparr>
       \<in> set (aggregatedWeeklyData example_getTime example_weekly)"
    by (simp add: example_weekly_rows)
  have fr: "map_option RegionalData.country
       (find (\<lambda>r. RegionalData.region r = ''Dubai'') (regional_records example_regional))
     = Some ''UAE''"
    using bspec[OF fw[THEN conjunct1] r] by simp
  have fwk: "map_option week_end
       (find (\<lambda>r. week_start r = ''2024-01-08'') (weekly_records example_weekly))
     = Some ''2024-01-14''"
    using bspec[OF fw[THEN conjunct2] w] by simp
  have lr: "map RegionalData.country
       (filter (\<lambda>r. RegionalData.region r = ''Dubai'') (regional_records example_regional))
     = [''UAE'', ''Oman'']"
    by (simp add: example_regional_records)
  have lw: "map week_end
       (filter (\<lambda>r. week_start r = ''2024-01-08'') (weekly_records example_weekly))
     = [''2024-01-14'', ''2024-01-15'']"
    by (simp add: example_weekly_records)
  from r lr fr w lw fwk show ?thesis by (intro conjI)
qed

section \<open>Bubble radii and the caller's array\<close>

lemma Math_max_Max: "Math_max v vs = Max (set (v # vs))"
  by (simp only: Math_max_def Max.set_eq_fold)

lemma Math_min_Min: "Math_min v vs = Min (set (v # vs))"
  by (simp only: Math_min_def Min.set_eq_fold)

lemma getBubbleSize_bounds:
  assumes "lo \<le> v" "v \<le> hi"
  shows "10 \<le> getBubbleSize hi lo v \<and> getBubbleSize hi lo v \<le> 60"
proof (cases "hi = lo")
  case True
  then show ?thesis by (simp add: getBubbleSize_def)
next
  case False
  define n where "n = (v - lo) / (hi - lo)"
  from False assms have pos: "0 < hi - lo" by simp
  have n0: "0 \<le> n" unfolding n_def using assms pos by simp
  have n1: "n \<le> 1" unfolding n_def using assms pos by simp
  have "getBubbleSize hi lo v = 10 + n * 50"
    unfolding getBubbleSize_def Let_def n_def using False by (simp only: if_False)
  with n0 n1 show ?thesis by simp
qed

lemma getBubbleSize_min: "hi \<noteq> lo \<Longrightarrow> getBubbleSize hi lo lo = 10"
  by (simp add: getBubbleSize_def)

lemma getBubbleSize_max: "hi \<noteq> lo \<Longrightarrow> getBubbleSize hi lo hi = 60"
  by (simp add: getBubbleSize_def)

lemma getBubbleSize_equal: "getBubbleSize lo lo v = 35"
  by (simp add: getBubbleSize_def)

lemma bubble_radii_eq:
  "data \<noteq> [] \<Longrightarrow>
   bubble_radii height data =
     map (\<lambda>p. getBubbleSize (Max (BubbleDataPoint.value ` set data))
                 (Min (BubbleDataPoint.value ` set data)) (BubbleDataPoint.value p)) data"
  by (cases data)
     (simp_all add: bubble_radii_def BubbleMap_def Let_def Math_max_Max Math_min_Min split_def
        comp_def)

lemma Min_eq_Max_all_equal:
  assumes "finite A" "A \<noteq> {}"
  shows "Min A = Max A \<longleftrightarrow> (\<forall>a \<in> A. \<forall>b \<in> A. a = (b::real))"
proof
  assume e: "Min A = Max A"
  show "\<forall>a \<in> A. \<forall>b \<in> A. a = b"
  proof (intro ballI)
    fix a b assume "a \<in> A" "b \<in> A"
    with assms have "Min A \<le> a" "a \<le> Max A" "Min A \<le> b" "b \<le> Max A" by simp_all
    with e show "a = b" by simp
  qed
next
  assume all: "\<forall>a \<in> A. \<forall>b \<in> A. a = b"
  from assms have "Min A \<in> A" "Max A \<in> A" by simp_all
  with all show "Min A = Max A" by blast
qed

text \<open>
  C9. For a non-empty point list every radius lies between 10 and 60. Unless all values
  are equal, a point with the least value has radius 10 and a point with the greatest
  value has radius 60; if all values are equal, every radius is 35.
\<close>

theorem bubble_radius_bounds:
  assumes "data \<noteq> []"
  shows "length (bubble_radii height data) = length data
       \<and> (\<forall>i < length data.
            10 \<le> bubble_radii height data ! i \<and> bubble_radii height data ! i \<le> 60
            \<and> ((\<exists>p \<in> set data. \<exists>q \<in> set data. BubbleDataPoint.value p \<noteq> BubbleDataPoint.value q) \<longrightarrow>
                 (BubbleDataPoint.value (data ! i) = Min (BubbleDataPoint.value ` set data)
                    \<longrightarrow> bubble_radii height data ! i = 10)
               \<and> (BubbleDataPoint.value (data ! i) = Max (BubbleDataPoint.value ` set data)
                    \<longrightarrow> bubble_radii height data ! i = 60))
            \<and> ((\<forall>p \<in> set data. \<forall>q \<in> set data. BubbleDataPoint.value p = BubbleDataPoint.value q) \<longrightarrow>
                 bubble_radii height data ! i = 35))"
proof (intro conjI allI impI)
  let ?A = "BubbleDataPoint.value ` set data"
  have fin: "finite ?A" and ne: "?A \<noteq> {}" using assms by simp_all
  note eq = bubble_radii_eq[OF assms, of height]
  show "length (bubble_radii height data) = length data" by (simp add: eq)
  fix i assume i: "i < length data"
  then have mem: "BubbleDataPoint.value (data ! i) \<in> ?A" by simp
  have ri: "bubble_radii height data ! i
              = getBubbleSize (Max ?A) (Min ?A) (BubbleDataPoint.value (data ! i))"
    using i by (simp add: eq)
  have lo: "Min ?A \<le> BubbleDataPoint.value (data ! i)" using fin mem by (rule Min_le)
  have hi: "BubbleDataPoint.value (data ! i) \<le> Max ?A" using fin mem by (rule Max_ge)
  from getBubbleSize_bounds[OF lo hi]
  show "10 \<le> bubble_radii height data ! i" and "bubble_radii height data ! i \<le> 60"
    by (simp_all add: ri)
  {
    assume "\<exists>p \<in> set data. \<exists>q \<in> set data. BubbleDataPoint.value p \<noteq> BubbleDataPoint.value q"
    then obtain p q where pq: "p \<in> set data" "q \<in> set data"
      "BubbleDataPoint.value p \<noteq> BubbleDataPoint.value q" by blast
    have d: "Max ?A \<noteq> Min ?A"
    proof
      assume "Max ?A = Min ?A"
      then have "Min ?A = Max ?A" by (rule sym)
      with Min_eq_Max_all_equal[OF fin ne]
      have all: "\<forall>a \<in> ?A. \<forall>b \<in> ?A. a = b" by (rule iffD1)
      from pq(1,2) have "BubbleDataPoint.value p \<in> ?A" "BubbleDataPoint.value q \<in> ?A"
        by simp_all
      with all have "BubbleDataPoint.value p = BubbleDataPoint.value q" by blast
      with pq(3) show False by (rule notE)
    qed
    {
      assume "BubbleDataPoint.value (data ! i) = Min ?A"
      then show "bubble_radii height data ! i = 10"
        using getBubbleSize_min[OF d] by (simp only: ri)
    }
    {
      assume "BubbleDataPoint.value (data ! i) = Max ?A"
      then show "bubble_radii height data ! i = 60"
        using getBubbleSize_max[OF d] by (simp only: ri)
    }
  }
  {
    assume eqv: "\<forall>p \<in> set data. \<forall>q \<in> set data. BubbleDataPoint.value p = BubbleDataPoint.value q"
    have "\<forall>a \<in> ?A. \<forall>b \<in> ?A. a = b"
    proof (intro ballI)
      fix a b assume "a \<in> ?A" "b \<in> ?A"
      then obtain p q where "p \<in> set data" "a = BubbleDataPoint.value p"
        "q \<in> set data" "b = BubbleDataPoint.value q" by blast
      with eqv show "a = b" by blast
    qed
    with Min_eq_Max_all_equal[OF fin ne] have "Min ?A = Max ?A" by (rule iffD2)
    then show "bubble_radii height data ! i = 35"
      by (simp only: ri getBubbleSize_equal)
  }
qed

lemma example_bubbles_radii: "bubble_radii 500 example_bubbles = [10, 60]"
  by (simp add: bubble_radii_def BubbleMap_def example_bubbles_def Let_def Math_max_def
        Math_min_def getBubbleSize_def convertCoordinates_def)

theorem bubble_radius_bounds_witness:
  "example_bubbles \<noteq> []
   \<and> length (bubble_radii 500 example_bubbles) = length example_bubbles
   \<and> bubble_radii 500 example_bubbles = [10, 60]"
proof -
  have ne: "example_bubbles \<noteq> []" by (simp add: example_bubbles_def)
  from bubble_radius_bounds[OF ne, of 500]
  have "length (bubble_radii 500 example_bubbles) = length example_bubbles" by (rule conjunct1)
  with ne example_bubbles_radii show ?thesis by (intro conjI)
qed

text \<open>
  C10 fails: the city list is \<open>data.sort(...)\<close>, and \<open>sort\<close> reorders the array it
  is called on. After the call the caller's array holds its points by descending value.
\<close>

theorem BubbleMap_reorders_its_input:
  "snd (BubbleMap 500 example_bubbles) = rev example_bubbles
   \<and> snd (BubbleMap 500 example_bubbles) \<noteq> example_bubbles"
  by (simp add: BubbleMap_def example_bubbles_def Let_def)

section \<open>Derived ratios\<close>

text \<open>
  C5 fails: with a spend of 0 and a revenue of 500 the quotient is \<open>Infinity\<close>. The
  regional table guards it with \<open>|| 0\<close>, which replaces \<open>NaN\<close> and lets
  \<open>Infinity\<close> through; the per-campaign table of the device view has no guard at all.
  Only the summary card of the device view, \<open>mobileROAS\<close>, checks the spend.
\<close>

theorem zero_spend_roas_is_infinite:
  "map RegionalTableRow.roas (tableData zero_spend_regional) = [PosInf]
   \<and> map CampaignTableRow.roas (mobileCampaigns parsed zero_spend_device) = [PosInf]
   \<and> map mobileROAS (aggregatedDeviceData zero_spend_device) = [Fin 0]"
  by (simp add: tableData_def regionalData_def aggregatedRegionalData_def zero_spend_regional_def
        regional_campaign_forEach_def regional_forEach_def Map_has_def Map_get_def Map_set_def
        Map_entries_def regional_row_def Let_def js_or_def js_div_def
        mobileCampaigns_def zero_spend_device_def mobile_campaign_row_def
        mobileROAS_def aggregatedDeviceData_def device_campaign_forEach_def device_forEach_def
        device_row_def)

section \<open>A series of one point\<close>

text \<open>
  C6 fails: for a series of one point the index 0 is divided by \<open>data.length - 1 = 0\<close>.
  The quotient is \<open>NaN\<close>, nothing replaces it, and the path reads \<open>M NaN ...\<close>.
  The vertical position of the same point is guarded: a value range of 0 is replaced
  by 1.
\<close>

theorem single_point_x_is_NaN:
  "LineChart digits height [item] =
     Some \<lparr>points = [\<lparr>label = label item, LineChartDataPoint.value = LineChartDataPoint.value item,
                       LinePoint.x = NaN, LinePoint.y = height - 80\<rparr>],
           pathD = ''M NaN '' @ digits (height - 80),
           areaPathD = ''M NaN '' @ digits (height - 80) @ '' L '' @ digits 100 @ '' ''
                       @ digits (height - 80) @ '' L 0 '' @ digits (height - 80) @ '' Z''\<rparr>"
  by (simp add: LineChart_def Let_def Math_max_def Math_min_def js_div_def join_def)

section \<open>The points of the regional bubble maps\<close>

lemma regionalData_eq: "regionalData data = aggregatedRegionalData data"
  by (simp add: regionalData_def aggregatedRegionalData_def split: option.splits)

lemma map_of_fold_update:
  "distinct (map key rows) \<Longrightarrow>
   map_of (fold (\<lambda>r m. AList.update (key r) r m) rows m0) k
     = (case find (\<lambda>r. key r = k) rows of Some r \<Rightarrow> Some r | None \<Rightarrow> map_of m0 k)"
proof (induction rows arbitrary: m0)
  case Nil
  show ?case by simp
next
  case (Cons r rows)
  from Cons.prems have d: "distinct (map key rows)" and nk: "key r \<notin> key ` set rows" by simp_all
  show ?case
  proof (cases "key r = k")
    case True
    with nk have "find (\<lambda>r. key r = k) rows = None"
      by (simp add: find_None_iff image_iff) metis
    with True show ?thesis by (simp add: Cons.IH[OF d] update_conv')
  next
    case False
    then show ?thesis by (simp add: Cons.IH[OF d] update_conv' split: option.splits)
  qed
qed

lemma regionalDataMap_get:
  "Map_get (regionalDataMap data) c
     = find (\<lambda>r. RegionalRow.region r = c) (regionalData data)"
proof -
  have "distinct (map RegionalRow.region (regionalData data))"
    by (simp only: regionalData_eq regional_keys(2))
  then show ?thesis
    by (simp add: Map_get_def regionalDataMap_def Map_set_def map_of_fold_update
          split: option.splits)
qed

lemma find_distinct_member:
  "distinct (map key rows) \<Longrightarrow> row \<in> set rows \<Longrightarrow> find (\<lambda>r. key r = key row) rows = Some row"
  by (induction rows) (auto simp: rev_image_eqI)

lemma regionalData_find:
  assumes "row \<in> set (regionalData data)"
  shows "find (\<lambda>r. RegionalRow.region r = RegionalRow.region row) (regionalData data) = Some row"
proof -
  have "distinct (map RegionalRow.region (regionalData data))"
    by (simp only: regionalData_eq regional_keys(2))
  then show ?thesis using assms by (rule find_distinct_member)
qed

lemma revenue_point:
  assumes "p \<in> set (bubbleMapDataRevenue data)"
  shows "BubbleDataPoint.value p
           = field_or (map_option revenue
               (find (\<lambda>r. RegionalRow.region r = city p) (regionalData data))) 1000"
  using assms
  by (auto simp: bubbleMapDataRevenue_def regionalDataMap_get Let_def)

lemma spend_point:
  assumes "p \<in> set (bubbleMapDataSpend data)"
  shows "BubbleDataPoint.value p
           = field_or (map_option spend
               (find (\<lambda>r. RegionalRow.region r = city p) (regionalData data))) 1000"
  using assms
  by (auto simp: bubbleMapDataSpend_def regionalDataMap_get Let_def)

lemma bubble_cities:
  "map city (bubbleMapDataRevenue data) = map fst cityCoordinates"
  "map city (bubbleMapDataSpend data) = map fst cityCoordinates"
  by (simp_all add: bubbleMapDataRevenue_def bubbleMapDataSpend_def split_def Let_def comp_def)

lemma distinct_cities: "distinct (map fst cityCoordinates)"
  by (simp add: cityCoordinates_def)

lemma find_no_key: "k \<notin> key ` set rows \<Longrightarrow> find (\<lambda>r. key r = k) rows = None"
  by (simp add: find_None_iff image_iff) metis

text \<open>
  C7, as the code has it. Both bubble maps get one point for each city of the fixed
  table, in the order of the table, and no other point: an aggregated row whose region
  is not a city of the table is not plotted. The point of a city with an aggregated row
  whose revenue (for the spend map: spend) is not zero carries that total; the point of
  a city with no aggregated row carries 1000.
\<close>

theorem reference_points:
  "map city (bubbleMapDataRevenue data) = map fst cityCoordinates
   \<and> map city (bubbleMapDataSpend data) = map fst cityCoordinates
   \<and> distinct (map fst cityCoordinates)
   \<and> (\<forall>p \<in> set (bubbleMapDataRevenue data).
        (\<forall>row \<in> set (regionalData data).
           RegionalRow.region row = city p \<and> revenue row \<noteq> 0
             \<longrightarrow> BubbleDataPoint.value p = revenue row)
        \<and> (city p \<notin> RegionalRow.region ` set (regionalData data)
             \<longrightarrow> BubbleDataPoint.value p = 1000))
   \<and> (\<forall>p \<in> set (bubbleMapDataSpend data).
        (\<forall>row \<in> set (regionalData data).
           RegionalRow.region row = city p \<and> spend row \<noteq> 0
             \<longrightarrow> BubbleDataPoint.value p = spend row)
        \<and> (city p \<notin> RegionalRow.region ` set (regionalData data)
             \<longrightarrow> BubbleDataPoint.value p = 1000))"
proof (intro conjI ballI impI)
  show "map city (bubbleMapDataRevenue data) = map fst cityCoordinates"
    by (rule bubble_cities)
  show "map city (bubbleMapDataSpend data) = map fst cityCoordinates"
    by (rule bubble_cities)
  show "distinct (map fst cityCoordinates)" by (rule distinct_cities)
next
  fix p row
  assume p: "p \<in> set (bubbleMapDataRevenue data)" and row: "row \<in> set (regionalData data)"
    and h: "RegionalRow.region row = city p \<and> revenue row \<noteq> 0"
  from regionalData_find[OF row] h
  have "find (\<lambda>r. RegionalRow.region r = city p) (regionalData data) = Some row" by simp
  with h show "BubbleDataPoint.value p = revenue row"
    by (simp add: revenue_point[OF p] field_or_def)
next
  fix p
  assume p: "p \<in> set (bubbleMapDataRevenue data)"
    and h: "city p \<notin> RegionalRow.region ` set (regionalData data)"
  from find_no_key[OF h] show "BubbleDataPoint.value p = 1000"
    by (simp add: revenue_point[OF p] field_or_def)
next
  fix p row
  assume p: "p \<in> set (bubbleMapDataSpend data)" and row: "row \<in> set (regionalData data)"
    and h: "RegionalRow.region row = city p \<and> spend row \<noteq> 0"
  from regionalData_find[OF row] h
  have "find (\<lambda>r. RegionalRow.region r = city p) (regionalData data) = Some row" by simp
  with h show "BubbleDataPoint.value p = spend row"
    by (simp add: spend_point[OF p] field_or_def)
next
  fix p
  assume p: "p \<in> set (bubbleMapDataSpend data)"
    and h: "city p \<notin> RegionalRow.region ` set (regionalData data)"
  from find_no_key[OF h] show "BubbleDataPoint.value p = 1000"
    by (simp add: spend_point[OF p] field_or_def)
qed

lemma example_regionalData:
  "regionalData example_regional =
     [\<lparr>impressions = 400, clicks = 40, conversions = 4, spend = 60, revenue = 570,
       RegionalStats.country = ''UAE'', RegionalRow.region = ''Dubai''\<rparr>,
      \<lparr>impressions = 200, clicks = 20, conversions = 2, spend = 40, revenue = 50,
       RegionalStats.country = ''Japan'', RegionalRow.region = ''Tokyo''\<rparr>]"
  by (simp only: regionalData_eq example_regional_rows)

lemma example_revenue_points:
  "map (\<lambda>p. (city p, BubbleDataPoint.value p)) (bubbleMapDataRevenue example_regional) =
     [(''Dubai'', 570), (''Abu Dhabi'', 1000), (''Riyadh'', 1000), (''Jeddah'', 1000),
      (''Cairo'', 1000), (''Doha'', 1000), (''Kuwait'', 1000), (''Manama'', 1000),
      (''Muscat'', 1000), (''Amman'', 1000), (''Beirut'', 1000), (''Casablanca'', 1000),
      (''Tunis'', 1000), (''Algiers'', 1000), (''Paris'', 1000), (''London'', 1000),
      (''Madrid'', 1000), (''Rome'', 1000), (''Berlin'', 1000), (''Istanbul'', 1000)]"
  by (simp add: bubbleMapDataRevenue_def regionalDataMap_get example_regionalData
        cityCoordinates_def field_or_def Let_def)

text \<open>
  In the example the document has rows for Dubai and for Tokyo. Tokyo is not a city of
  the table, and no point of the revenue map is Tokyo's.
\<close>

theorem unlisted_region_counterexample:
  "''Tokyo'' \<in> set (map RegionalRow.region (regionalData example_regional))
   \<and> ''Tokyo'' \<notin> set (map city (bubbleMapDataRevenue example_regional))"
  by (simp add: example_regionalData bubble_cities cityCoordinates_def)

theorem reference_points_witness:
  "\<lparr>city = ''Dubai'', BubbleDataPoint.country = ''UAE'', BubbleDataPoint.value = 570,
     secondaryValue = Some 60, BubbleDataPoint.x = 55.2708, BubbleDataPoint.y = 25.2048\<rparr>
     \<in> set (bubbleMapDataRevenue example_regional)
   \<and> \<lparr>impressions = 400, clicks = 40, conversions = 4, spend = 60, revenue = 570,
       RegionalStats.country = ''UAE'', RegionalRow.region = ''Dubai''\<rparr>
       \<in> set (regionalData example_regional)
   \<and> \<lparr>city = ''Cairo'', BubbleDataPoint.country = ''Egypt'', BubbleDataPoint.value = 1000,
       secondaryValue = Some 0, BubbleDataPoint.x = 31.2357, BubbleDataPoint.y = 30.0444\<rparr>
       \<in> set (bubbleMapDataRevenue example_regional)
   \<and> ''Cairo'' \<notin> RegionalRow.region ` set (regionalData example_regional)
   \<and> length (bubbleMapDataRevenue example_regional) = 20
   \<and> BubbleDataPoint.value
       \<lparr>city = ''Dubai'', BubbleDataPoint.country = ''UAE'', BubbleDataPoint.value = 570,
        secondaryValue = Some 60, BubbleDataPoint.x = 55.2708, BubbleDataPoint.y = 25.2048\<rparr>
     = revenue
         \<lparr>impressions = 400, clicks = 40, conversions = 4, spend = 60, revenue = 570,
          RegionalStats.country = ''UAE'', RegionalRow.region = ''Dubai''\<rparr>
   \<and> BubbleDataPoint.value
       \<lparr>city = ''Cairo'', BubbleDataPoint.country = ''Egypt'', BubbleDataPoint.value = 1000,
        secondaryValue = Some 0, BubbleDataPoint.x = 31.2357, BubbleDataPoint.y = 30.0444\<rparr>
     = 1000"
proof -
  note rp = reference_points[of example_regional]
  have pd: "\<lparr>city = ''Dubai'', BubbleDataPoint.country = ''UAE'', BubbleDataPoint.value = 570,
     secondaryValue = Some 60, BubbleDataPoint.x = 55.2708, BubbleDataPoint.y = 25.2048\<rparr>
     \<in> set (bubbleMapDataRevenue example_regional)"
    by (simp add: bubbleMapDataRevenue_def regionalDataMap_get example_regionalData
          cityCoordinates_def field_or_def Let_def)
  have pc: "\<lparr>city = ''Cairo'', BubbleDataPoint.country = ''Egypt'', BubbleDataPoint.value = 1000,
       secondaryValue = Some 0, BubbleDataPoint.x = 31.2357, BubbleDataPoint.y = 30.0444\<rparr>
       \<in> set (bubbleMapDataRevenue example_regional)"
    by (simp add: bubbleMapDataRevenue_def regionalDataMap_get example_regionalData
          cityCoordinates_def field_or_def Let_def)
  have rd: "\<lparr>impressions = 400, clicks = 40, conversions = 4, spend = 60, revenue = 570,
       RegionalStats.country = ''UAE'', RegionalRow.region = ''Dubai''\<rparr>
       \<in> set (regionalData example_regional)"
    by (simp add: example_regionalData)
  have nc: "''Cairo'' \<notin> RegionalRow.region ` set (regionalData example_regional)"
    by (simp add: example_regionalData)
  from rp have "length (map city (bubbleMapDataRevenue example_regional))
                  = length (map fst cityCoordinates)"
    by (simp only:)
  then have len: "length (bubbleMapDataRevenue example_regional) = 20"
    by (simp add: cityCoordinates_def)
  note rev = rp[THEN conjunct2, THEN conjunct2, THEN conjunct2, THEN conjunct1]
  have vd: "BubbleDataPoint.value
       \<lparr>city = ''Dubai'', BubbleDataPoint.country = ''UAE'', BubbleDataPoint.value = 570,
        secondaryValue = Some 60, BubbleDataPoint.x = 55.2708, BubbleDataPoint.y = 25.2048\<rparr>
     = revenue
         \<lparr>impressions = 400, clicks = 40, conversions = 4, spend = 60, revenue = 570,
          RegionalStats.country = ''UAE'', RegionalRow.region = ''Dubai''\<rparr>"
    using bspec[OF bspec[OF rev pd, THEN conjunct1] rd] by simp
  have vc: "BubbleDataPoint.value
       \<lparr>city = ''Cairo'', BubbleDataPoint.country = ''Egypt'', BubbleDataPoint.value = 1000,
        secondaryValue = Some 0, BubbleDataPoint.x = 31.2357, BubbleDataPoint.y = 30.0444\<rparr>
     = 1000"
    using bspec[OF rev pc, THEN conjunct2] nc by simp
  from pd rd pc nc len vd vc show ?thesis by (intro conjI)
qed

end
